theory Spec2Isabelle
  imports Main "HOL-Library.Word"
begin

section \<open>CapacitorSerial.js: the serial protocol over the Capacitor plugin\<close>

text \<open>
  A shallow embedding of \<^verbatim>\<open>src/js/protocols/CapacitorSerial.js\<close>. The class
  \<^verbatim>\<open>CapacitorSerialProtocol\<close> is a record of its fields; every method is a function
  from the state before the call to the method's outcome and the state after it. A
  thrown exception (a rejected promise) is the \<open>Inl\<close> of a sum. Each method runs from
  its call to its settlement as one step: calls interleaved at an \<^verbatim>\<open>await\<close> are not
  part of the model. \<^verbatim>\<open>console.log\<close> and \<^verbatim>\<open>console.error\<close> change nothing
  the program can read back and are left out.
\<close>

subsection \<open>Values\<close>

type_synonym byte = "8 word"

text \<open>
  Error values. \<open>NativeError\<close> is an error object a plugin call rejects with (the
  Capacitor bridge rejects with objects, which are truthy); \<open>TypeError\<close> is what the
  runtime throws on a property read of \<^verbatim>\<open>null\<close>; \<open>Error msg (Some c)\<close> is
  \<^verbatim>\<open>new Error(msg, { cause: c })\<close>.
\<close>

datatype js_error =
    NativeError string
  | TypeError string
  | Error string "js_error option"

record options =
  baudRate :: nat

text \<open>The object literal built by \<^verbatim>\<open>createPort\<close>.\<close>

record port_descriptor =
  path :: string
  displayName :: string
  vendorId :: nat
  productId :: nat

datatype SerialDriverEnum = CDC_ACM_SERIAL_DRIVER

text \<open>The message handed to the read callback: \<^verbatim>\<open>message.data\<close> may be missing.\<close>

datatype serial_message = SerialMessage (data: "byte list option")

text \<open>
  What an observer outside the class sees, in order: the events given to
  \<^verbatim>\<open>dispatchEvent\<close> (with their \<^verbatim>\<open>detail\<close>), the calls made on the plugin, and
  the invocations of the callback passed to \<^verbatim>\<open>send\<close>.
\<close>

datatype event =
    AddedDevice "port_descriptor option"
  | RemovedDevice "port_descriptor option"
  | Connect bool
  | Disconnect bool
  | Receive "byte list"

datatype plugin_call =
    RequestSerialPermissions nat nat SerialDriverEnum
  | OpenConnection options
  | RegisterReadCallback
  | UnregisterReadCallback
  | CloseConnection
  | Write "byte list option"

datatype action =
    Dispatch event
  | Call plugin_call
  | Callback nat

subsection \<open>The imported modules\<close>

text \<open>
  \<^verbatim>\<open>Serial\<close> of \<^verbatim>\<open>@adeunis/capacitor-serial\<close> is not part of the repository: it is
  a parameter. Its methods may depend on, and change, a state \<open>'t\<close> of the plugin's own;
  each returns the settlement of its promise (\<open>Inl\<close> a rejection) and the plugin's new
  state. \<^verbatim>\<open>requestSerialPermissions\<close> resolves to an object whose \<^verbatim>\<open>granted\<close> field
  is the boolean.
\<close>

record 't serial_plugin =
  requestSerialPermissions :: "nat \<Rightarrow> nat \<Rightarrow> SerialDriverEnum \<Rightarrow> 't \<Rightarrow> (js_error + bool) \<times> 't"
  openConnection :: "options \<Rightarrow> 't \<Rightarrow> (js_error + unit) \<times> 't"
  registerReadCallback :: "'t \<Rightarrow> (js_error + unit) \<times> 't"
  unregisterReadCallback :: "'t \<Rightarrow> (js_error + unit) \<times> 't"
  closeConnection :: "'t \<Rightarrow> (js_error + unit) \<times> 't"
  write' :: "byte list option \<Rightarrow> 't \<Rightarrow> (js_error + unit) \<times> 't"

text \<open>
  \<^verbatim>\<open>serialDevices\<close> and \<^verbatim>\<open>vendorIdNames\<close> come from \<^verbatim>\<open>./devices\<close>, which is not
  among the sources: both are parameters too.
\<close>

record 't modules =
  Serial :: "'t serial_plugin"
  serialDevices :: "(nat \<times> nat) list"
  vendorIdNames :: "nat \<Rightarrow> string option"

subsection \<open>The object\<close>

text \<open>
  The fields the constructor sets, with \<^verbatim>\<open>null\<close> as \<open>None\<close>. An element of
  \<^verbatim>\<open>ports\<close> is \<open>None\<close> when it is \<^verbatim>\<open>null\<close>. \<open>receiveListener\<close> says whether
  \<^verbatim>\<open>handleReceiveBytes\<close> is among the listeners of \<^verbatim>\<open>"receive"\<close>, \<open>plugin\<close> is the
  state of the native plugin, and \<open>trace\<close> the actions observed so far.
\<close>

record 't protocol =
  connected :: bool
  connectionInfo :: "unit option"
  bytesSent :: nat
  bytesReceived :: nat
  isOpen :: bool
  port :: "unit option"
  ports :: "port_descriptor option list"
  connectionId :: "string option"
  reading :: bool
  receiveListener :: bool
  plugin :: 't
  trace :: "action list"

definition observe :: "action \<Rightarrow> 't protocol \<Rightarrow> 't protocol" where
  "observe a s = s\<lparr>trace := trace s @ [a]\<rparr>"

text \<open>Lines 29-32.\<close>

definition handleReceiveBytes :: "byte list \<Rightarrow> 't protocol \<Rightarrow> 't protocol" where
  "handleReceiveBytes detail s = s\<lparr>bytesReceived := bytesReceived s + length detail\<rparr>"

text \<open>
  \<^verbatim>\<open>dispatchEvent\<close>: the event reaches the observers, and a \<^verbatim>\<open>"receive"\<close> event
  runs \<^verbatim>\<open>handleReceiveBytes\<close> when that listener has been added. A listener's own
  exception does not reach the caller of \<^verbatim>\<open>dispatchEvent\<close>.
\<close>

definition dispatchEvent :: "event \<Rightarrow> 't protocol \<Rightarrow> 't protocol" where
  "dispatchEvent e s =
     (let s1 = observe (Dispatch e) s
      in case e of
           Receive detail \<Rightarrow> if receiveListener s1 then handleReceiveBytes detail s1 else s1
         | _ \<Rightarrow> s1)"

text \<open>Lines 34-36.\<close>

definition getConnectedPort :: "'t protocol \<Rightarrow> string option" where
  "getConnectedPort s = connectionId s"

subsection \<open>The registry\<close>

text \<open>
  \<^verbatim>\<open>this.ports.some((p) => p.vendorId === vid && p.productId === pid)\<close>: the scan stops
  at the first match, and reading \<^verbatim>\<open>p.vendorId\<close> of a \<^verbatim>\<open>null\<close> element throws.
\<close>

fun some_match :: "nat \<Rightarrow> nat \<Rightarrow> port_descriptor option list \<Rightarrow> js_error + bool" where
  "some_match vid pid [] = Inr False"
| "some_match vid pid (None # ps) =
     Inl (TypeError ''Cannot read properties of null (reading 'vendorId')'')"
| "some_match vid pid (Some p # ps) =
     (if vendorId p = vid \<and> productId p = pid then Inr True else some_match vid pid ps)"

text \<open>\<^verbatim>\<open>findIndex\<close> with the same predicate: \<open>None\<close> is the result \<^verbatim>\<open>-1\<close>.\<close>

fun findIndex_match :: "nat \<Rightarrow> nat \<Rightarrow> port_descriptor option list \<Rightarrow> js_error + nat option" where
  "findIndex_match vid pid [] = Inr None"
| "findIndex_match vid pid (None # ps) =
     Inl (TypeError ''Cannot read properties of null (reading 'vendorId')'')"
| "findIndex_match vid pid (Some p # ps) =
     (if vendorId p = vid \<and> productId p = pid then Inr (Some 0)
      else case findIndex_match vid pid ps of
             Inl e \<Rightarrow> Inl e
           | Inr None \<Rightarrow> Inr None
           | Inr (Some i) \<Rightarrow> Inr (Some (Suc i)))"

text \<open>A number in a template literal: its decimal digits.\<close>

definition digit :: "nat \<Rightarrow> char" where
  "digit d = ''0123456789'' ! d"

function string_of_nat :: "nat \<Rightarrow> string" where
  "string_of_nat n = (if n < 10 then [digit n] else string_of_nat (n div 10) @ [digit (n mod 10)])"
  by pat_completeness auto
termination
  by (relation "measure (\<lambda>n. n)") auto

declare string_of_nat.simps [simp del]

text \<open>
  Line 50: \<^verbatim>\<open>vendorIdNames[vid] ? vendorIdNames[vid] : `VID:${vid} PID:${pid}`\<close>. A
  missing entry is \<^verbatim>\<open>undefined\<close> and an empty name is falsy as well.
\<close>

definition vendor_label :: "(nat \<Rightarrow> string option) \<Rightarrow> nat \<Rightarrow> nat \<Rightarrow> string" where
  "vendor_label names vid pid =
     (case names vid of
        Some name \<Rightarrow> if name \<noteq> [] then name
                     else ''VID:'' @ string_of_nat vid @ '' PID:'' @ string_of_nat pid
      | None \<Rightarrow> ''VID:'' @ string_of_nat vid @ '' PID:'' @ string_of_nat pid)"

text \<open>Lines 45-58. \<open>Inr None\<close> is the \<^verbatim>\<open>return null\<close> of the duplicate branch.\<close>

definition createPort :: "'t modules \<Rightarrow> nat \<Rightarrow> nat \<Rightarrow> 't protocol \<Rightarrow> js_error + port_descriptor option" where
  "createPort M vid pid s =
     (case some_match vid pid (ports s) of
        Inl e \<Rightarrow> Inl e
      | Inr True \<Rightarrow> Inr None
      | Inr False \<Rightarrow>
          Inr (Some \<lparr>path = ''serial'',
                     displayName = ''Betaflight '' @ vendor_label (vendorIdNames M) vid pid,
                     vendorId = vid,
                     productId = pid\<rparr>))"

text \<open>Lines 38-43: whatever \<^verbatim>\<open>createPort\<close> returned is pushed and dispatched.\<close>

definition handleNewDevice ::
  "'t modules \<Rightarrow> nat \<Rightarrow> nat \<Rightarrow> 't protocol \<Rightarrow> (js_error + port_descriptor option) \<times> 't protocol" where
  "handleNewDevice M vid pid s =
     (case createPort M vid pid s of
        Inl e \<Rightarrow> (Inl e, s)
      | Inr added \<Rightarrow>
          (Inr added, dispatchEvent (AddedDevice added) (s\<lparr>ports := ports s @ [added]\<rparr>)))"

text \<open>Lines 60-67. \<^verbatim>\<open>splice(index, 1)\<close> takes the element out and keeps the order.\<close>

definition handleDeviceRemoval ::
  "nat \<Rightarrow> nat \<Rightarrow> 't protocol \<Rightarrow> (js_error + unit) \<times> 't protocol" where
  "handleDeviceRemoval vid pid s =
     (case findIndex_match vid pid (ports s) of
        Inl e \<Rightarrow> (Inl e, s)
      | Inr None \<Rightarrow> (Inr (), s)
      | Inr (Some index) \<Rightarrow>
          (let removed = ports s ! index
           in (Inr (), dispatchEvent (RemovedDevice removed)
                         (s\<lparr>ports := take index (ports s) @ drop (Suc index) (ports s)\<rparr>))))"

subsection \<open>Permission requests and the device list\<close>

text \<open>
  Lines 117-138. One turn of the loop asks the plugin for the candidate. Everything from
  the request to the \<^verbatim>\<open>return true\<close> stands in the \<^verbatim>\<open>try\<close>, whose \<^verbatim>\<open>catch\<close> is empty:
  whatever throws there, the loop goes on with the next candidate, keeping the changes
  made so far.
\<close>

fun permission_loop :: "'t modules \<Rightarrow> (nat \<times> nat) list \<Rightarrow> 't protocol \<Rightarrow> bool \<times> 't protocol" where
  "permission_loop M [] s = (False, s)"
| "permission_loop M ((vid, pid) # rest) s =
     (let (permissionResponse, t) =
            requestSerialPermissions (Serial M) vid pid CDC_ACM_SERIAL_DRIVER (plugin s);
          s1 = observe (Call (RequestSerialPermissions vid pid CDC_ACM_SERIAL_DRIVER))
                 (s\<lparr>plugin := t\<rparr>)
      in case permissionResponse of
           Inl e \<Rightarrow> permission_loop M rest s1
         | Inr False \<Rightarrow> permission_loop M rest s1
         | Inr True \<Rightarrow>
             (case some_match vid pid (ports s1) of
                Inl e \<Rightarrow> permission_loop M rest s1
              | Inr True \<Rightarrow> (True, s1)
              | Inr False \<Rightarrow>
                  (case handleNewDevice M vid pid s1 of
                     (Inl e, s2) \<Rightarrow> permission_loop M rest s2
                   | (Inr added, s2) \<Rightarrow> (True, s2))))"

definition requestPermissionDevice :: "'t modules \<Rightarrow> 't protocol \<Rightarrow> bool \<times> 't protocol" where
  "requestPermissionDevice M s = permission_loop M (serialDevices M) s"

text \<open>
  Lines 69-76: \<^verbatim>\<open>loadDevices\<close> returns the array when it has an element, and what
  \<^verbatim>\<open>requestPermissionDevice\<close> returns otherwise.
\<close>

datatype loaded = Cached "port_descriptor option list" | Requested bool

definition loadDevices :: "'t modules \<Rightarrow> 't protocol \<Rightarrow> loaded \<times> 't protocol" where
  "loadDevices M s =
     (if length (ports s) > 0 then (Cached (ports s), s)
      else (let (granted, s1) = requestPermissionDevice M s in (Requested granted, s1)))"

text \<open>Lines 78-81.\<close>

definition getDevices :: "'t modules \<Rightarrow> 't protocol \<Rightarrow> port_descriptor option list \<times> 't protocol" where
  "getDevices M s = (let (r, s1) = loadDevices M s in (ports s1, s1))"

subsection \<open>The connection\<close>

text \<open>
  Lines 83-112. \<open>opts\<close> is \<open>None\<close> when the caller leaves the second argument out, and
  the default \<^verbatim>\<open>{ baudRate: 115200 }\<close> stands for it. The
  \<^verbatim>\<open>try\<close> covers the open alone: a rejection of \<^verbatim>\<open>registerReadCallback\<close> is
  thrown by \<^verbatim>\<open>connect\<close>. \<^verbatim>\<open>addEventListener\<close> keeps one copy of a listener.
\<close>

definition options_or_default :: "options option \<Rightarrow> options" where
  "options_or_default opts = (case opts of None \<Rightarrow> \<lparr>baudRate = 115200\<rparr> | Some given \<Rightarrow> given)"

definition connect ::
  "'t modules \<Rightarrow> string \<Rightarrow> options option \<Rightarrow> 't protocol \<Rightarrow> (js_error + bool) \<times> 't protocol" where
  "connect M path' opts s =
     (let options = options_or_default opts;
          (opened, t) = openConnection (Serial M) options (plugin s);
          s0 = observe (Call (OpenConnection options)) (s\<lparr>plugin := t\<rparr>)
      in case opened of
           Inl error \<Rightarrow> (Inr False, dispatchEvent (Connect False) s0)
         | Inr u \<Rightarrow>
             (let s1 = s0\<lparr>isOpen := True, connectionId := Some path'\<rparr>;
                  s2 = s1\<lparr>receiveListener := True\<rparr>;
                  (registered, t2) = registerReadCallback (Serial M) (plugin s2);
                  s3 = observe (Call RegisterReadCallback) (s2\<lparr>plugin := t2\<rparr>)
              in case registered of
                   Inl e \<Rightarrow> (Inl e, s3)
                 | Inr u2 \<Rightarrow> (Inr True, dispatchEvent (Connect True) s3)))"

text \<open>
  Lines 98-106, the function given to \<^verbatim>\<open>registerReadCallback\<close>; the plugin calls it
  with a message, an error, or both. The data of a message is a buffer, which is truthy
  whatever its length.
\<close>

definition readCallback :: "serial_message option \<Rightarrow> js_error option \<Rightarrow> 't protocol \<Rightarrow> 't protocol" where
  "readCallback message error s =
     (case message of
        Some (SerialMessage (Some d)) \<Rightarrow> dispatchEvent (Receive d) s
      | _ \<Rightarrow> s)"

text \<open>
  Lines 140-151. \<open>given\<close> is the first argument: \<open>Some bytes\<close> for a buffer, whose
  \<^verbatim>\<open>byteLength\<close> is the length of \<open>bytes\<close>, and \<open>None\<close> for \<^verbatim>\<open>null\<close> or
  \<^verbatim>\<open>undefined\<close>, where reading \<^verbatim>\<open>data.byteLength\<close> throws. \<open>callback\<close> is
  \<open>None\<close> when the caller passes none: \<^verbatim>\<open>callback?.(...)\<close> then does nothing and does
  not evaluate its argument. A callback that is passed is a function of the caller's:
  \<open>cb k n\<close> is what its call number \<open>k\<close> within this \<^verbatim>\<open>send\<close>, counted from 0, does
  when it is given \<^verbatim>\<open>{ bytesSent: n }\<close>: \<open>None\<close> when it returns, \<open>Some e\<close> when it
  throws \<open>e\<close>. Each call is observed.

  First the \<^verbatim>\<open>catch\<close> block, lines 146-150: the callback is called with zero, and what
  it throws there leaves \<^verbatim>\<open>send\<close>. \<open>call\<close> is the callback at the call it is at.
\<close>

definition send_catch ::
  "(nat \<Rightarrow> js_error option) option \<Rightarrow> 't protocol \<Rightarrow> (js_error + bool) \<times> 't protocol" where
  "send_catch call s =
     (case call of
        None \<Rightarrow> (Inr False, s)
      | Some at_call \<Rightarrow>
          (let s1 = observe (Callback 0) s
           in case at_call 0 of
                None \<Rightarrow> (Inr False, s1)
              | Some thrown \<Rightarrow> (Inl thrown, s1)))"

text \<open>
  The \<^verbatim>\<open>try\<close> block, lines 141-145, holds the write, the reading of the byte length
  and the first call of the callback: a rejected write, a missing buffer and a callback
  that throws all lead to the \<^verbatim>\<open>catch\<close>.
\<close>

definition send ::
  "'t modules \<Rightarrow> byte list option \<Rightarrow> (nat \<Rightarrow> nat \<Rightarrow> js_error option) option \<Rightarrow> 't protocol \<Rightarrow>
   (js_error + bool) \<times> 't protocol" where
  "send M given callback s =
     (let (written, t) = write' (Serial M) given (plugin s);
          s0 = observe (Call (Write given)) (s\<lparr>plugin := t\<rparr>)
      in case written of
           Inl error \<Rightarrow> send_catch (map_option (\<lambda>cb. cb 0) callback) s0
         | Inr u \<Rightarrow>
             (case callback of
                None \<Rightarrow> (Inr True, s0)
              | Some cb \<Rightarrow>
                  (case given of
                     None \<Rightarrow> send_catch (Some (cb 0)) s0
                   | Some bytes \<Rightarrow>
                       (let s1 = observe (Callback (length bytes)) s0
                        in case cb 0 (length bytes) of
                             None \<Rightarrow> (Inr True, s1)
                           | Some error \<Rightarrow> send_catch (Some (cb 1)) s1))))"

text \<open>
  Lines 157-161: the two awaited calls of the \<^verbatim>\<open>try\<close>, the second only when the
  first resolved. The result is \<^verbatim>\<open>closeError\<close>.
\<close>

definition close_steps :: "'t modules \<Rightarrow> 't protocol \<Rightarrow> js_error option \<times> 't protocol" where
  "close_steps M s =
     (let (unregistered, t) = unregisterReadCallback (Serial M) (plugin s);
          s1 = observe (Call UnregisterReadCallback) (s\<lparr>plugin := t\<rparr>)
      in case unregistered of
           Inl error \<Rightarrow> (Some error, s1)
         | Inr u \<Rightarrow>
             (let (closed, t2) = closeConnection (Serial M) (plugin s1);
                  s2 = observe (Call CloseConnection) (s1\<lparr>plugin := t2\<rparr>)
              in case closed of
                   Inl error \<Rightarrow> (Some error, s2)
                 | Inr u2 \<Rightarrow> (None, s2)))"

text \<open>Lines 162-166, the \<^verbatim>\<open>finally\<close> block.\<close>

definition cleanup :: "'t protocol \<Rightarrow> 't protocol" where
  "cleanup s = dispatchEvent (Disconnect True) (s\<lparr>isOpen := False, port := None\<rparr>)"

text \<open>Lines 153-170.\<close>

definition disconnect :: "'t modules \<Rightarrow> 't protocol \<Rightarrow> (js_error + unit) \<times> 't protocol" where
  "disconnect M s =
     (if \<not> isOpen s then (Inr (), s)
      else (let (closeError, s1) = close_steps M (s\<lparr>reading := False\<rparr>);
                s2 = cleanup s1
            in case closeError of
                 Some cause \<Rightarrow> (Inl (Error ''Failed to close serial port'' (Some cause)), s2)
               | None \<Rightarrow> (Inr (), s2)))"

subsection \<open>The constructor and the operations of an object\<close>

text \<open>Lines 7-27: the fields, then a first \<^verbatim>\<open>loadDevices\<close>, whose result is dropped.\<close>

definition initial_fields :: "'t \<Rightarrow> 't protocol" where
  "initial_fields t =
     \<lparr>connected = False, connectionInfo = None, bytesSent = 0, bytesReceived = 0,
      isOpen = False, port = None, ports = [], connectionId = None, reading = False,
      receiveListener = False, plugin = t, trace = []\<rparr>"

definition constructor :: "'t modules \<Rightarrow> 't \<Rightarrow> 't protocol" where
  "constructor M t = snd (loadDevices M (initial_fields t))"

text \<open>
  A call of a method by a user of the object, or of the read callback by the plugin, and
  the state it leaves, whether the call returned or threw.
\<close>

datatype operation =
    HandleReceiveBytes "byte list"
  | GetConnectedPort
  | HandleNewDevice nat nat
  | HandleDeviceRemoval nat nat
  | LoadDevices
  | GetDevices
  | ConnectTo string "options option"
  | RequestPermissionDevice
  | Send "byte list option" "(nat \<Rightarrow> nat \<Rightarrow> js_error option) option"
  | DisconnectNow
  | ReadCallback "serial_message option" "js_error option"

fun step :: "'t modules \<Rightarrow> operation \<Rightarrow> 't protocol \<Rightarrow> 't protocol" where
  "step M (HandleReceiveBytes d) s = handleReceiveBytes d s"
| "step M GetConnectedPort s = s"
| "step M (HandleNewDevice vid pid) s = snd (handleNewDevice M vid pid s)"
| "step M (HandleDeviceRemoval vid pid) s = snd (handleDeviceRemoval vid pid s)"
| "step M LoadDevices s = snd (loadDevices M s)"
| "step M GetDevices s = snd (getDevices M s)"
| "step M (ConnectTo p opts) s = snd (connect M p opts s)"
| "step M RequestPermissionDevice s = snd (requestPermissionDevice M s)"
| "step M (Send given callback) s = snd (send M given callback s)"
| "step M DisconnectNow s = snd (disconnect M s)"
| "step M (ReadCallback message error) s = readCallback message error s"

fun run :: "'t modules \<Rightarrow> operation list \<Rightarrow> 't protocol \<Rightarrow> 't protocol" where
  "run M [] s = s"
| "run M (op # ops) s = run M ops (step M op s)"

subsection \<open>The permission negotiation in the words of the specification\<close>

text \<open>
  The negotiation as the specification describes it, to compare with
  \<^verbatim>\<open>requestPermissionDevice\<close>. The candidates are asked in order; a candidate whose
  request throws, or is not granted, is passed over; the first granted candidate ends
  the pass. The result is that candidate, if there is one, the requests made and the
  plugin's state after them.
\<close>

fun negotiate ::
  "'t serial_plugin \<Rightarrow> (nat \<times> nat) list \<Rightarrow> 't \<Rightarrow> (nat \<times> nat) option \<times> plugin_call list \<times> 't" where
  "negotiate P [] t = (None, [], t)"
| "negotiate P ((vid, pid) # rest) t =
     (let (response, t1) = requestSerialPermissions P vid pid CDC_ACM_SERIAL_DRIVER t;
          request = RequestSerialPermissions vid pid CDC_ACM_SERIAL_DRIVER
      in if response = Inr True then (Some (vid, pid), [request], t1)
         else (let (winner, requests, t2) = negotiate P rest t1
               in (winner, request # requests, t2)))"

text \<open>A descriptor with the pair is in the registry.\<close>

definition is_registered :: "nat \<Rightarrow> nat \<Rightarrow> port_descriptor option list \<Rightarrow> bool" where
  "is_registered vid pid ps =
     list_ex (\<lambda>q. case q of None \<Rightarrow> False | Some p \<Rightarrow> vendorId p = vid \<and> productId p = pid) ps"

text \<open>The pairs of the descriptors of a registry, in its order.\<close>

definition descriptor_pairs :: "port_descriptor option list \<Rightarrow> (nat \<times> nat) list" where
  "descriptor_pairs ps =
     concat (map (\<lambda>q. case q of None \<Rightarrow> [] | Some p \<Rightarrow> [(vendorId p, productId p)]) ps)"

text \<open>
  \<open>addDevice\<close> of the specification: on a pair that is registered, no mutation and no
  event; otherwise a descriptor is constructed (constant path, label from the vendor
  table or the fallback, with the prefix the program gives it), appended to the
  collection, and carried by an \<^verbatim>\<open>"addedDevice"\<close> notification.
\<close>

definition addDevice_spec :: "'t modules \<Rightarrow> nat \<Rightarrow> nat \<Rightarrow> 't protocol \<Rightarrow> 't protocol" where
  "addDevice_spec M vid pid s =
     (if is_registered vid pid (ports s) then s
      else (let fallback = ''VID:'' @ string_of_nat vid @ '' PID:'' @ string_of_nat pid;
                descriptor =
                  \<lparr>path = ''serial'',
                   displayName =
                     ''Betaflight '' @
                       (case vendorIdNames M vid of
                          None \<Rightarrow> fallback
                        | Some name \<Rightarrow> if name = [] then fallback else name),
                   vendorId = vid, productId = pid\<rparr>
            in s\<lparr>ports := ports s @ [Some descriptor],
                 trace := trace s @ [Dispatch (AddedDevice (Some descriptor))]\<rparr>))"

text \<open>
  \<open>requestAccess\<close> of the specification: negotiate; with no grant return false; with a
  grant add the device, unless it is registered, and return true.
\<close>

definition requestAccess_spec :: "'t modules \<Rightarrow> 't protocol \<Rightarrow> bool \<times> 't protocol" where
  "requestAccess_spec M s =
     (let (winner, requests, t) = negotiate (Serial M) (serialDevices M) (plugin s);
          s1 = s\<lparr>plugin := t, trace := trace s @ map Call requests\<rparr>
      in case winner of
           None \<Rightarrow> (False, s1)
         | Some (vid, pid) \<Rightarrow> (True, addDevice_spec M vid pid s1))"

subsection \<open>Plugins and tables for the examples\<close>

text \<open>
  A plugin without a state of its own: the answer to a permission request depends on the
  candidate, and every other call settles the way the argument says.
\<close>

definition scripted_plugin ::
  "(nat \<Rightarrow> nat \<Rightarrow> js_error + bool) \<Rightarrow> (js_error + unit) \<Rightarrow> (js_error + unit) \<Rightarrow>
   (js_error + unit) \<Rightarrow> (js_error + unit) \<Rightarrow> (js_error + unit) \<Rightarrow> unit serial_plugin" where
  "scripted_plugin permission opened registered unregistered closed written =
     \<lparr>requestSerialPermissions = (\<lambda>vid pid driver t. (permission vid pid, t)),
      openConnection = (\<lambda>given t. (opened, t)),
      registerReadCallback = (\<lambda>t. (registered, t)),
      unregisterReadCallback = (\<lambda>t. (unregistered, t)),
      closeConnection = (\<lambda>t. (closed, t)),
      write' = (\<lambda>bytes t. (written, t))\<rparr>"

text \<open>A plugin that grants every request and resolves every call.\<close>

definition willing_plugin :: "unit serial_plugin" where
  "willing_plugin =
     scripted_plugin (\<lambda>vid pid. Inr True) (Inr ()) (Inr ()) (Inr ()) (Inr ()) (Inr ())"

text \<open>A table with one vendor, and a list of three known devices.\<close>

definition example_names :: "nat \<Rightarrow> string option" where
  "example_names vid = (if vid = 1155 then Some ''STM Electronics'' else None)"

definition example_modules :: "unit serial_plugin \<Rightarrow> unit modules" where
  "example_modules P =
     \<lparr>Serial = P, serialDevices = [(1155, 22336), (10473, 394), (11836, 22336)], vendorIdNames = example_names\<rparr>"

text \<open>A plugin whose request for vendor 1155 throws, and which grants every other one.\<close>

definition choosy_plugin :: "unit serial_plugin" where
  "choosy_plugin =
     scripted_plugin (\<lambda>vid pid. if vid = 1155 then Inl (NativeError ''no such device'') else Inr True)
       (Inr ()) (Inr ()) (Inr ()) (Inr ()) (Inr ())"

text \<open>Plugins with one call that rejects.\<close>

definition refusing_open :: "unit serial_plugin" where
  "refusing_open =
     scripted_plugin (\<lambda>vid pid. Inr True) (Inl (NativeError ''open failed'')) (Inr ()) (Inr ())
       (Inr ()) (Inr ())"

definition refusing_register :: "unit serial_plugin" where
  "refusing_register =
     scripted_plugin (\<lambda>vid pid. Inr True) (Inr ()) (Inl (NativeError ''no read callback''))
       (Inr ()) (Inr ()) (Inr ())"

definition refusing_close :: "unit serial_plugin" where
  "refusing_close =
     scripted_plugin (\<lambda>vid pid. Inr True) (Inr ()) (Inr ()) (Inr ())
       (Inl (NativeError ''close failed'')) (Inr ())"

definition refusing_write :: "unit serial_plugin" where
  "refusing_write =
     scripted_plugin (\<lambda>vid pid. Inr True) (Inr ()) (Inr ()) (Inr ()) (Inr ())
       (Inl (NativeError ''write failed''))"

text \<open>A callback that returns, and one that throws at its first call.\<close>

definition quiet_callback :: "nat \<Rightarrow> nat \<Rightarrow> js_error option" where
  "quiet_callback k n = None"

definition fussy_callback :: "nat \<Rightarrow> nat \<Rightarrow> js_error option" where
  "fussy_callback k n = (if k = 0 then Some (NativeError ''callback failed'') else None)"

text \<open>
  A registry whose one element is \<^verbatim>\<open>null\<close>: a device is found, added a second time
  and then removed.
\<close>

definition null_registry :: "unit protocol" where
  "null_registry =
     run (example_modules willing_plugin)
       [GetDevices, HandleNewDevice 1155 22336, HandleDeviceRemoval 1155 22336]
       (initial_fields ())"

section \<open>The registry and the permission requests\<close>

text \<open>The scan of the registry when no element is \<^verbatim>\<open>null\<close>, and what follows a scan.\<close>

lemma some_match_descriptors:
  "list_all (\<lambda>q. q \<noteq> None) ps \<Longrightarrow>
   some_match vid pid ps =
     Inr (list_ex (\<lambda>q. case q of None \<Rightarrow> False | Some p \<Rightarrow> vendorId p = vid \<and> productId p = pid) ps)"
  by (induction vid pid ps rule: some_match.induct) auto

lemma some_match_False_descriptors:
  "some_match vid pid ps = Inr False \<Longrightarrow> list_all (\<lambda>q. q \<noteq> None) ps"
  by (induction vid pid ps rule: some_match.induct) (auto split: if_splits)

lemma createPort_fresh:
  "some_match vid pid (ports s) = Inr False \<Longrightarrow>
   createPort M vid pid s =
     Inr (Some \<lparr>path = ''serial'',
                displayName = ''Betaflight '' @ vendor_label (vendorIdNames M) vid pid,
                vendorId = vid, productId = pid\<rparr>)"
  by (simp add: createPort_def)

lemma createPort_duplicate:
  "some_match vid pid (ports s) = Inr True \<Longrightarrow> createPort M vid pid s = Inr None"
  by (simp add: createPort_def)

lemma handleNewDevice_result:
  "createPort M vid pid s = Inr added \<Longrightarrow>
   handleNewDevice M vid pid s =
     (Inr added, s\<lparr>ports := ports s @ [added], trace := trace s @ [Dispatch (AddedDevice added)]\<rparr>)"
  by (simp add: handleNewDevice_def dispatchEvent_def observe_def)

lemma handleNewDevice_throws:
  "createPort M vid pid s = Inl e \<Longrightarrow> handleNewDevice M vid pid s = (Inl e, s)"
  by (simp add: handleNewDevice_def)

text \<open>One turn of the loop, with the branch that cannot be taken removed.\<close>

lemma permission_loop_Cons:
  "permission_loop M ((vid, pid) # rest) s =
     (let answer = requestSerialPermissions (Serial M) vid pid CDC_ACM_SERIAL_DRIVER (plugin s);
          s1 = s\<lparr>plugin := snd answer,
                 trace := trace s @ [Call (RequestSerialPermissions vid pid CDC_ACM_SERIAL_DRIVER)]\<rparr>
      in if fst answer = Inr True \<and> some_match vid pid (ports s) = Inr True then (True, s1)
         else if fst answer = Inr True \<and> some_match vid pid (ports s) = Inr False
         then (True,
               s1\<lparr>ports := ports s @
                   [Some \<lparr>path = ''serial'',
                          displayName = ''Betaflight '' @ vendor_label (vendorIdNames M) vid pid,
                          vendorId = vid, productId = pid\<rparr>],
                  trace := trace s1 @
                   [Dispatch (AddedDevice
                      (Some \<lparr>path = ''serial'',
                             displayName = ''Betaflight '' @ vendor_label (vendorIdNames M) vid pid,
                             vendorId = vid, productId = pid\<rparr>))]\<rparr>)
         else permission_loop M rest s1)"
proof -
  obtain r t where a: "requestSerialPermissions (Serial M) vid pid CDC_ACM_SERIAL_DRIVER (plugin s) = (r, t)"
    by (cases "requestSerialPermissions (Serial M) vid pid CDC_ACM_SERIAL_DRIVER (plugin s)")
  let ?s1 = "s\<lparr>plugin := t,
      trace := trace s @ [Call (RequestSerialPermissions vid pid CDC_ACM_SERIAL_DRIVER)]\<rparr>"
  show ?thesis
  proof (cases r)
    case (Inl e)
    with a show ?thesis by (simp add: observe_def)
  next
    case (Inr granted)
    show ?thesis
    proof (cases granted)
      case False
      with a Inr show ?thesis by (simp add: observe_def)
    next
      case True
      show ?thesis
      proof (cases "some_match vid pid (ports s)")
        case (Inl e)
        with a Inr True show ?thesis by (simp add: observe_def)
      next
        case m: (Inr found)
        show ?thesis
        proof (cases found)
          case True
          with a Inr \<open>granted\<close> m show ?thesis by (simp add: observe_def)
        next
          case False
          with m have "createPort M vid pid ?s1 =
              Inr (Some \<lparr>path = ''serial'',
                displayName = ''Betaflight '' @ vendor_label (vendorIdNames M) vid pid,
                vendorId = vid, productId = pid\<rparr>)"
            by (simp add: createPort_fresh)
          with a Inr \<open>granted\<close> m False show ?thesis
            by (simp add: observe_def handleNewDevice_result)
        qed
      qed
    qed
  qed
qed


text \<open>
  A pass of the loop changes the registry, the plugin and the trace, and nothing else; it
  adds at most one descriptor, for a pair that was not registered; and it dispatches one
  \<^verbatim>\<open>"addedDevice"\<close> event for each element it adds, after the requests.
\<close>

lemma permission_loop_frame:
  "(snd (permission_loop M cs s))\<lparr>ports := ports s, plugin := plugin s, trace := trace s\<rparr> = s"
proof (induction cs arbitrary: s)
  case Nil
  show ?case by simp
next
  case (Cons c cs)
  obtain vid pid where c: "c = (vid, pid)" by (cases c)
  let ?s1 = "s\<lparr>plugin := snd (requestSerialPermissions (Serial M) vid pid CDC_ACM_SERIAL_DRIVER (plugin s)),
      trace := trace s @ [Call (RequestSerialPermissions vid pid CDC_ACM_SERIAL_DRIVER)]\<rparr>"
  have "(snd (permission_loop M cs ?s1))\<lparr>ports := ports ?s1, plugin := plugin ?s1, trace := trace ?s1\<rparr> = ?s1"
    by (rule Cons.IH)
  then have "((snd (permission_loop M cs ?s1))\<lparr>ports := ports ?s1, plugin := plugin ?s1, trace := trace ?s1\<rparr>)
       \<lparr>plugin := plugin s, trace := trace s\<rparr> = ?s1\<lparr>plugin := plugin s, trace := trace s\<rparr>"
    by simp
  then have "(snd (permission_loop M cs ?s1))\<lparr>ports := ports s, plugin := plugin s, trace := trace s\<rparr> = s"
    by simp
  then show ?case
    unfolding c permission_loop_Cons by (simp add: Let_def)
qed

lemma permission_loop_ports:
  "ports (snd (permission_loop M cs s)) = ports s \<or>
   (\<exists>vid pid. (vid, pid) \<in> set cs \<and> some_match vid pid (ports s) = Inr False \<and>
      ports (snd (permission_loop M cs s)) =
        ports s @ [Some \<lparr>path = ''serial'',
                         displayName = ''Betaflight '' @ vendor_label (vendorIdNames M) vid pid,
                         vendorId = vid, productId = pid\<rparr>])"
proof (induction cs arbitrary: s)
  case Nil
  show ?case by simp
next
  case (Cons c cs)
  obtain vid pid where c: "c = (vid, pid)" by (cases c)
  let ?s1 = "s\<lparr>plugin := snd (requestSerialPermissions (Serial M) vid pid CDC_ACM_SERIAL_DRIVER (plugin s)),
      trace := trace s @ [Call (RequestSerialPermissions vid pid CDC_ACM_SERIAL_DRIVER)]\<rparr>"
  from Cons.IH [of ?s1] show ?case
    unfolding c permission_loop_Cons by (auto simp: Let_def)
qed

lemma permission_loop_trace:
  "\<exists>calls. trace (snd (permission_loop M cs s)) =
     trace s @ map Call calls @
       map (\<lambda>q. Dispatch (AddedDevice q)) (drop (length (ports s)) (ports (snd (permission_loop M cs s))))"
proof (induction cs arbitrary: s)
  case Nil
  show ?case by simp
next
  case (Cons c cs)
  obtain vid pid where c: "c = (vid, pid)" by (cases c)
  let ?call = "RequestSerialPermissions vid pid CDC_ACM_SERIAL_DRIVER"
  let ?s1 = "s\<lparr>plugin := snd (requestSerialPermissions (Serial M) vid pid CDC_ACM_SERIAL_DRIVER (plugin s)),
      trace := trace s @ [Call ?call]\<rparr>"
  from Cons.IH [of ?s1] obtain calls where
    ih: "trace (snd (permission_loop M cs ?s1)) =
      trace s @ map Call (?call # calls) @
        map (\<lambda>q. Dispatch (AddedDevice q)) (drop (length (ports s)) (ports (snd (permission_loop M cs ?s1))))"
    by auto
  have one: "trace ?s1 = trace s @ map Call [?call] @ []"
    by simp
  show ?case
    unfolding c permission_loop_Cons Let_def
    using ih one by (auto intro: exI [of _ "[?call]"] exI [of _ "?call # calls"])
qed


lemma permission_loop_connection:
  "isOpen (snd (permission_loop M cs s)) = isOpen s \<and>
   connectionId (snd (permission_loop M cs s)) = connectionId s"
proof -
  let ?s' = "(snd (permission_loop M cs s))\<lparr>ports := ports s, plugin := plugin s, trace := trace s\<rparr>"
  have "isOpen ?s' = isOpen s \<and> connectionId ?s' = connectionId s"
    by (simp only: permission_loop_frame)
  then show ?thesis by simp
qed

text \<open>The requests of a negotiation are those of a prefix of the list, in its order.\<close>

lemma negotiate_requests:
  "negotiate P cs t = (winner, requests, t') \<Longrightarrow>
   requests = map (\<lambda>(vid, pid). RequestSerialPermissions vid pid CDC_ACM_SERIAL_DRIVER)
                (take (length requests) cs) \<and>
   (case winner of
      None \<Rightarrow> length requests = length cs
    | Some c \<Rightarrow> requests \<noteq> [] \<and> length requests \<le> length cs \<and> cs ! (length requests - 1) = c)"
proof (induction cs arbitrary: t winner requests t')
  case Nil
  then show ?case by simp
next
  case (Cons c cs)
  obtain vid pid where c: "c = (vid, pid)" by (cases c)
  obtain response t1 where a: "requestSerialPermissions P vid pid CDC_ACM_SERIAL_DRIVER t = (response, t1)"
    by (cases "requestSerialPermissions P vid pid CDC_ACM_SERIAL_DRIVER t")
  show ?case
  proof (cases "response = Inr True")
    case True
    with Cons.prems c a show ?thesis by auto
  next
    case False
    obtain w rs t2 where n: "negotiate P cs t1 = (w, rs, t2)"
      by (cases "negotiate P cs t1")
    from Cons.IH [OF n] Cons.prems c a False n show ?thesis
      by (auto split: option.splits)
  qed
qed

text \<open>On a registry of descriptors the loop is the negotiation of the specification.\<close>

lemma permission_loop_negotiate:
  "list_all (\<lambda>q. q \<noteq> None) (ports s) \<Longrightarrow>
   permission_loop M cs s =
     (let (winner, requests, t) = negotiate (Serial M) cs (plugin s);
          s1 = s\<lparr>plugin := t, trace := trace s @ map Call requests\<rparr>
      in case winner of
           None \<Rightarrow> (False, s1)
         | Some (vid, pid) \<Rightarrow> (True, addDevice_spec M vid pid s1))"
proof (induction cs arbitrary: s)
  case Nil
  show ?case by simp
next
  case (Cons c cs)
  obtain vid pid where c: "c = (vid, pid)" by (cases c)
  obtain response t1 where a: "requestSerialPermissions (Serial M) vid pid CDC_ACM_SERIAL_DRIVER (plugin s) = (response, t1)"
    by (cases "requestSerialPermissions (Serial M) vid pid CDC_ACM_SERIAL_DRIVER (plugin s)")
  let ?request = "RequestSerialPermissions vid pid CDC_ACM_SERIAL_DRIVER"
  let ?s1 = "s\<lparr>plugin := t1, trace := trace s @ [Call ?request]\<rparr>"
  have m: "some_match vid pid (ports s) = Inr (is_registered vid pid (ports s))"
    using Cons.prems by (simp add: some_match_descriptors is_registered_def)
  show ?case
  proof (cases "response = Inr True")
    case True
    show ?thesis
    proof (cases "is_registered vid pid (ports s)")
      case True
      with \<open>response = Inr True\<close> a m show ?thesis
        unfolding c permission_loop_Cons by (simp add: Let_def addDevice_spec_def)
    next
      case False
      with \<open>response = Inr True\<close> a m show ?thesis
        unfolding c permission_loop_Cons
        by (simp add: Let_def addDevice_spec_def vendor_label_def split: option.split)
    qed
  next
    case False
    obtain w rs t2 where n: "negotiate (Serial M) cs t1 = (w, rs, t2)"
      by (cases "negotiate (Serial M) cs t1")
    have "list_all (\<lambda>q. q \<noteq> None) (ports ?s1)"
      using Cons.prems by simp
    from Cons.IH [OF this] n
    have "permission_loop M cs ?s1 =
       (case w of
          None \<Rightarrow> (False, s\<lparr>plugin := t2, trace := trace s @ map Call (?request # rs)\<rparr>)
        | Some (vid', pid') \<Rightarrow>
            (True, addDevice_spec M vid' pid'
                     (s\<lparr>plugin := t2, trace := trace s @ map Call (?request # rs)\<rparr>)))"
      by (simp add: Let_def split: option.split)
    with False a n show ?thesis
      unfolding c permission_loop_Cons by (simp add: Let_def split: option.split)
  qed
qed

text \<open>A pass on a fresh object, with the plugin that throws for the first candidate.\<close>

lemma example_fallback: "vendor_label example_names 10473 394 = ''VID:10473 PID:394''"
  by (simp add: vendor_label_def example_names_def digit_def string_of_nat.simps)

lemma example_pass:
  "requestPermissionDevice (example_modules choosy_plugin) (initial_fields ()) =
     (True,
      (initial_fields ())
        \<lparr>ports := [Some \<lparr>path = ''serial'', displayName = ''Betaflight VID:10473 PID:394'',
                           vendorId = 10473, productId = 394\<rparr>],
         trace := [Call (RequestSerialPermissions 1155 22336 CDC_ACM_SERIAL_DRIVER),
                   Call (RequestSerialPermissions 10473 394 CDC_ACM_SERIAL_DRIVER),
                   Dispatch (AddedDevice
                     (Some \<lparr>path = ''serial'', displayName = ''Betaflight VID:10473 PID:394'',
                            vendorId = 10473, productId = 394\<rparr>))]\<rparr>)"
  by (simp add: requestPermissionDevice_def example_modules_def choosy_plugin_def scripted_plugin_def
       initial_fields_def observe_def handleNewDevice_def createPort_def dispatchEvent_def example_fallback)

text \<open>
  On a registry whose elements are descriptors, \<^verbatim>\<open>requestPermissionDevice\<close> is
  \<open>requestAccess\<close> of the specification: the candidates are asked in the order of the
  list; one whose request throws (or is not granted) is passed over and changes nothing
  but the plugin and the trace of calls; the first granted candidate is added, unless
  it is registered, and no later candidate is asked. The result is true exactly when the
  negotiation has a granted candidate. The requests made are those of a prefix of the
  list: the whole list when nothing was granted, and the candidates up to the granted
  one otherwise.
\<close>

lemma requestPermissionDevice_on_descriptors:
  assumes "list_all (\<lambda>q. q \<noteq> None) (ports s)"
  shows "requestPermissionDevice M s = requestAccess_spec M s \<and>
    (let (winner, requests, t) = negotiate (Serial M) (serialDevices M) (plugin s)
     in fst (requestPermissionDevice M s) = (winner \<noteq> None) \<and>
        requests = map (\<lambda>(vid, pid). RequestSerialPermissions vid pid CDC_ACM_SERIAL_DRIVER)
                     (take (length requests) (serialDevices M)) \<and>
        (case winner of
           None \<Rightarrow> length requests = length (serialDevices M)
         | Some c \<Rightarrow> requests \<noteq> [] \<and> length requests \<le> length (serialDevices M) \<and>
                     serialDevices M ! (length requests - 1) = c))"
proof -
  obtain winner requests t where n: "negotiate (Serial M) (serialDevices M) (plugin s) = (winner, requests, t)"
    by (cases "negotiate (Serial M) (serialDevices M) (plugin s)")
  have r: "requestPermissionDevice M s = requestAccess_spec M s"
    unfolding requestPermissionDevice_def requestAccess_spec_def
    using assms by (rule permission_loop_negotiate)
  have "fst (requestAccess_spec M s) = (winner \<noteq> None)"
    using n by (simp add: requestAccess_spec_def Let_def split: option.split)
  with r n negotiate_requests [OF n] show ?thesis
    by simp
qed

text \<open>
  The specification's side at the example: the first candidate throws, the second is
  granted and added to the registry, the third is not asked.
\<close>

lemma example_requestAccess_spec:
  "requestAccess_spec (example_modules choosy_plugin) (initial_fields ()) =
     (True,
      (initial_fields ())
        \<lparr>ports := [Some \<lparr>path = ''serial'', displayName = ''Betaflight VID:10473 PID:394'',
                           vendorId = 10473, productId = 394\<rparr>],
         trace := [Call (RequestSerialPermissions 1155 22336 CDC_ACM_SERIAL_DRIVER),
                   Call (RequestSerialPermissions 10473 394 CDC_ACM_SERIAL_DRIVER),
                   Dispatch (AddedDevice
                     (Some \<lparr>path = ''serial'', displayName = ''Betaflight VID:10473 PID:394'',
                            vendorId = 10473, productId = 394\<rparr>))]\<rparr>)"
  by (simp add: requestAccess_spec_def addDevice_spec_def is_registered_def example_modules_def
        choosy_plugin_def scripted_plugin_def initial_fields_def example_names_def digit_def
        string_of_nat.simps Let_def)

text \<open>
  C5. With an element in the registry \<^verbatim>\<open>getDevices\<close> returns the registry and leaves
  the whole state as it was: no call reaches the plugin and the trace does not grow. Only
  with an empty registry does it run a pass of permission requests.
\<close>

theorem getDevices_cached:
  "(ports s \<noteq> [] \<longrightarrow> getDevices M s = (ports s, s)) \<and>
   (ports s = [] \<longrightarrow>
      getDevices M s =
        (ports (snd (requestPermissionDevice M s)), snd (requestPermissionDevice M s)))"
  by (simp add: getDevices_def loadDevices_def split_beta)

text \<open>A first call finds a device; a second call returns it and asks nothing.\<close>

theorem getDevices_cached_witness:
  "ports (snd (getDevices (example_modules choosy_plugin) (initial_fields ()))) \<noteq> [] \<and>
   getDevices (example_modules choosy_plugin)
     (snd (getDevices (example_modules choosy_plugin) (initial_fields ()))) =
     (ports (snd (getDevices (example_modules choosy_plugin) (initial_fields ()))),
      snd (getDevices (example_modules choosy_plugin) (initial_fields ()))) \<and>
   trace (snd (getDevices (example_modules choosy_plugin) (initial_fields ()))) =
     [Call (RequestSerialPermissions 1155 22336 CDC_ACM_SERIAL_DRIVER),
      Call (RequestSerialPermissions 10473 394 CDC_ACM_SERIAL_DRIVER),
      Dispatch (AddedDevice
        (Some \<lparr>path = ''serial'', displayName = ''Betaflight VID:10473 PID:394'',
               vendorId = 10473, productId = 394\<rparr>))]"
proof -
  have first: "getDevices (example_modules choosy_plugin) (initial_fields ()) =
      (ports (snd (requestPermissionDevice (example_modules choosy_plugin) (initial_fields ()))),
       snd (requestPermissionDevice (example_modules choosy_plugin) (initial_fields ())))"
    using getDevices_cached [of "initial_fields ()" "example_modules choosy_plugin"]
    by (simp add: initial_fields_def)
  then have filled: "ports (snd (getDevices (example_modules choosy_plugin) (initial_fields ()))) \<noteq> []"
    by (simp add: example_pass)
  with getDevices_cached [of "snd (getDevices (example_modules choosy_plugin) (initial_fields ()))"
      "example_modules choosy_plugin"] first
  show ?thesis
    by (simp add: example_pass)
qed

section \<open>What discovery adds\<close>

text \<open>The elements and events a pass adds, read off the three facts about the loop.\<close>

lemma permission_loop_adds:
  "\<exists>added requests.
     ports (snd (permission_loop M cs s)) = ports s @ map Some added \<and>
     trace (snd (permission_loop M cs s)) =
       trace s @ map Call requests @ map (\<lambda>p. Dispatch (AddedDevice (Some p))) added \<and>
     list_all (\<lambda>p. some_match (vendorId p) (productId p) (ports s) = Inr False) added"
proof -
  obtain calls where tr: "trace (snd (permission_loop M cs s)) =
     trace s @ map Call calls @
       map (\<lambda>q. Dispatch (AddedDevice q)) (drop (length (ports s)) (ports (snd (permission_loop M cs s))))"
    using permission_loop_trace [of M cs s] by blast
  from permission_loop_ports [of M cs s] show ?thesis
  proof
    assume same: "ports (snd (permission_loop M cs s)) = ports s"
    show ?thesis
      by (rule exI [of _ "[]"], rule exI [of _ calls]) (use tr same in simp)
  next
    assume "\<exists>vid pid. (vid, pid) \<in> set cs \<and> some_match vid pid (ports s) = Inr False \<and>
      ports (snd (permission_loop M cs s)) =
        ports s @ [Some \<lparr>path = ''serial'',
                         displayName = ''Betaflight '' @ vendor_label (vendorIdNames M) vid pid,
                         vendorId = vid, productId = pid\<rparr>]"
    then obtain vid pid where fresh: "some_match vid pid (ports s) = Inr False"
      and more: "ports (snd (permission_loop M cs s)) =
        ports s @ [Some \<lparr>path = ''serial'',
                         displayName = ''Betaflight '' @ vendor_label (vendorIdNames M) vid pid,
                         vendorId = vid, productId = pid\<rparr>]"
      by blast
    show ?thesis
      by (rule exI [of _ "[\<lparr>path = ''serial'',
                         displayName = ''Betaflight '' @ vendor_label (vendorIdNames M) vid pid,
                         vendorId = vid, productId = pid\<rparr>]"], rule exI [of _ calls])
         (use tr fresh more in simp)
  qed
qed

text \<open>
  C9. From any state, a pass of \<^verbatim>\<open>requestPermissionDevice\<close>, and so a call of
  \<^verbatim>\<open>getDevices\<close>, appends descriptors only, never \<^verbatim>\<open>null\<close>; after its requests
  it dispatches one \<^verbatim>\<open>"addedDevice"\<close> event for each, with that descriptor as detail;
  and the pair of each was not in the registry before, so that \<^verbatim>\<open>createPort\<close> was not
  on its duplicate branch.
\<close>

theorem discovery_adds_descriptors_only:
  "(\<exists>added requests.
      ports (snd (requestPermissionDevice M s)) = ports s @ map Some added \<and>
      trace (snd (requestPermissionDevice M s)) =
        trace s @ map Call requests @ map (\<lambda>p. Dispatch (AddedDevice (Some p))) added \<and>
      list_all (\<lambda>p. some_match (vendorId p) (productId p) (ports s) = Inr False) added) \<and>
   (\<exists>added requests.
      ports (snd (getDevices M s)) = ports s @ map Some added \<and>
      trace (snd (getDevices M s)) =
        trace s @ map Call requests @ map (\<lambda>p. Dispatch (AddedDevice (Some p))) added \<and>
      list_all (\<lambda>p. some_match (vendorId p) (productId p) (ports s) = Inr False) added)"
proof
  show pass: "\<exists>added requests.
      ports (snd (requestPermissionDevice M s)) = ports s @ map Some added \<and>
      trace (snd (requestPermissionDevice M s)) =
        trace s @ map Call requests @ map (\<lambda>p. Dispatch (AddedDevice (Some p))) added \<and>
      list_all (\<lambda>p. some_match (vendorId p) (productId p) (ports s) = Inr False) added"
    unfolding requestPermissionDevice_def by (rule permission_loop_adds)
  show "\<exists>added requests.
      ports (snd (getDevices M s)) = ports s @ map Some added \<and>
      trace (snd (getDevices M s)) =
        trace s @ map Call requests @ map (\<lambda>p. Dispatch (AddedDevice (Some p))) added \<and>
      list_all (\<lambda>p. some_match (vendorId p) (productId p) (ports s) = Inr False) added"
  proof (cases "ports s = []")
    case True
    then have "snd (getDevices M s) = snd (requestPermissionDevice M s)"
      by (simp add: getDevices_def loadDevices_def split_beta)
    with pass show ?thesis by simp
  next
    case False
    then have "snd (getDevices M s) = s"
      by (simp add: getDevices_def loadDevices_def)
    then show ?thesis
      by (intro exI [of _ "[]"]) simp
  qed
qed

text \<open>
  C8, as the code has it. A descriptor that \<^verbatim>\<open>createPort\<close> returns, and each
  element that \<^verbatim>\<open>getDevices\<close> appends to the registry, has the path
  \<^verbatim>\<open>serial\<close>, and its \<^verbatim>\<open>displayName\<close> is \<^verbatim>\<open>Betaflight\<close> and a space followed by
  the name the table has for the vendor or, when the table has none or an empty one, by
  \<^verbatim>\<open>VID:\<close>, the vendor in decimal, \<^verbatim>\<open> PID:\<close> and the product in decimal.
\<close>

theorem discovered_descriptor_label:
  "(createPort M vid pid s = Inr (Some p) \<longrightarrow>
      path p = ''serial'' \<and>
      displayName p =
        ''Betaflight '' @
          (case vendorIdNames M vid of
             None \<Rightarrow> ''VID:'' @ string_of_nat vid @ '' PID:'' @ string_of_nat pid
           | Some name \<Rightarrow>
               if name = [] then ''VID:'' @ string_of_nat vid @ '' PID:'' @ string_of_nat pid
               else name) \<and>
      vendorId p = vid \<and> productId p = pid) \<and>
   list_all
     (\<lambda>q. case q of
             None \<Rightarrow> False
           | Some d \<Rightarrow>
               path d = ''serial'' \<and>
               displayName d =
                 ''Betaflight '' @
                   (case vendorIdNames M (vendorId d) of
                      None \<Rightarrow> ''VID:'' @ string_of_nat (vendorId d) @ '' PID:'' @
                                string_of_nat (productId d)
                    | Some name \<Rightarrow>
                        if name = []
                        then ''VID:'' @ string_of_nat (vendorId d) @ '' PID:'' @
                             string_of_nat (productId d)
                        else name))
     (drop (length (ports s)) (ports (snd (getDevices M s))))"
proof
  show "createPort M vid pid s = Inr (Some p) \<longrightarrow>
      path p = ''serial'' \<and>
      displayName p =
        ''Betaflight '' @
          (case vendorIdNames M vid of
             None \<Rightarrow> ''VID:'' @ string_of_nat vid @ '' PID:'' @ string_of_nat pid
           | Some name \<Rightarrow>
               if name = [] then ''VID:'' @ string_of_nat vid @ '' PID:'' @ string_of_nat pid
               else name) \<and>
      vendorId p = vid \<and> productId p = pid"
    by (auto simp: createPort_def vendor_label_def split: sum.splits bool.splits option.splits)
  have loop: "list_all
     (\<lambda>q. case q of
             None \<Rightarrow> False
           | Some d \<Rightarrow>
               path d = ''serial'' \<and>
               displayName d =
                 ''Betaflight '' @
                   (case vendorIdNames M (vendorId d) of
                      None \<Rightarrow> ''VID:'' @ string_of_nat (vendorId d) @ '' PID:'' @
                                string_of_nat (productId d)
                    | Some name \<Rightarrow>
                        if name = []
                        then ''VID:'' @ string_of_nat (vendorId d) @ '' PID:'' @
                             string_of_nat (productId d)
                        else name))
     (drop (length (ports s)) (ports (snd (permission_loop M cs s))))" for cs
    using permission_loop_ports [of M cs s]
    by (auto simp: vendor_label_def split: option.splits)
  show "list_all
     (\<lambda>q. case q of
             None \<Rightarrow> False
           | Some d \<Rightarrow>
               path d = ''serial'' \<and>
               displayName d =
                 ''Betaflight '' @
                   (case vendorIdNames M (vendorId d) of
                      None \<Rightarrow> ''VID:'' @ string_of_nat (vendorId d) @ '' PID:'' @
                                string_of_nat (productId d)
                    | Some name \<Rightarrow>
                        if name = []
                        then ''VID:'' @ string_of_nat (vendorId d) @ '' PID:'' @
                             string_of_nat (productId d)
                        else name))
     (drop (length (ports s)) (ports (snd (getDevices M s))))"
  proof (cases "ports s = []")
    case True
    then have "snd (getDevices M s) = snd (permission_loop M (serialDevices M) s)"
      by (simp add: getDevices_def loadDevices_def requestPermissionDevice_def split_beta)
    with loop [of "serialDevices M"] show ?thesis by simp
  next
    case False
    then have "snd (getDevices M s) = s"
      by (simp add: getDevices_def loadDevices_def)
    then show ?thesis by simp
  qed
qed

text \<open>A first \<^verbatim>\<open>getDevices\<close> with the plugin that grants the first candidate.\<close>

lemma example_vendor: "vendor_label example_names 1155 22336 = ''STM Electronics''"
  by (simp add: vendor_label_def example_names_def)

lemma example_discovery:
  "getDevices (example_modules willing_plugin) (initial_fields ()) =
     ([Some \<lparr>path = ''serial'', displayName = ''Betaflight STM Electronics'',
              vendorId = 1155, productId = 22336\<rparr>],
      (initial_fields ())
        \<lparr>ports := [Some \<lparr>path = ''serial'', displayName = ''Betaflight STM Electronics'',
                           vendorId = 1155, productId = 22336\<rparr>],
         trace := [Call (RequestSerialPermissions 1155 22336 CDC_ACM_SERIAL_DRIVER),
                   Dispatch (AddedDevice
                     (Some \<lparr>path = ''serial'', displayName = ''Betaflight STM Electronics'',
                            vendorId = 1155, productId = 22336\<rparr>))]\<rparr>)"
  by (simp add: getDevices_def loadDevices_def requestPermissionDevice_def example_modules_def
       willing_plugin_def scripted_plugin_def initial_fields_def observe_def handleNewDevice_def
       createPort_def dispatchEvent_def example_vendor)

text \<open>The same, read at that call.\<close>

theorem discovery_adds_descriptors_only_witness:
  "\<exists>added requests.
      ports (snd (getDevices (example_modules willing_plugin) (initial_fields ()))) =
        ports (initial_fields ()) @ map Some added \<and>
      trace (snd (getDevices (example_modules willing_plugin) (initial_fields ()))) =
        trace (initial_fields ()) @ map Call requests @
          map (\<lambda>p. Dispatch (AddedDevice (Some p))) added \<and>
      list_all (\<lambda>p. some_match (vendorId p) (productId p) (ports (initial_fields ())) = Inr False)
        added"
  using discovery_adds_descriptors_only [of "example_modules willing_plugin" "initial_fields ()"]
  by simp

text \<open>A vendor without a name in the table, and the device found by that call.\<close>

theorem discovered_descriptor_label_witness:
  "createPort (example_modules willing_plugin) 10473 394 (initial_fields ()) =
     Inr (Some \<lparr>path = ''serial'', displayName = ''Betaflight VID:10473 PID:394'',
                vendorId = 10473, productId = 394\<rparr>) \<and>
   displayName \<lparr>path = ''serial'', displayName = ''Betaflight VID:10473 PID:394'',
                vendorId = 10473, productId = 394\<rparr> =
     ''Betaflight '' @ ''VID:'' @ string_of_nat 10473 @ '' PID:'' @ string_of_nat 394 \<and>
   drop (length (ports (initial_fields ())))
     (ports (snd (getDevices (example_modules willing_plugin) (initial_fields ())))) =
     [Some \<lparr>path = ''serial'', displayName = ''Betaflight STM Electronics'',
             vendorId = 1155, productId = 22336\<rparr>]"
proof -
  have made: "createPort (example_modules willing_plugin) 10473 394 (initial_fields ()) =
     Inr (Some \<lparr>path = ''serial'', displayName = ''Betaflight VID:10473 PID:394'',
                vendorId = 10473, productId = 394\<rparr>)"
    by (simp add: createPort_def initial_fields_def example_modules_def example_fallback)
  from made discovered_descriptor_label [of "example_modules willing_plugin" 10473 394 "initial_fields ()"
      "\<lparr>path = ''serial'', displayName = ''Betaflight VID:10473 PID:394'',
                vendorId = 10473, productId = 394\<rparr>"]
  show ?thesis
    by (simp add: example_discovery) (simp add: example_modules_def example_names_def initial_fields_def)
qed

text \<open>
  With "equal to the entry" in place of the prefixed label the statement fails: the table's entry for vendor 1155 is \<^verbatim>\<open>STM Electronics\<close>,
  and the \<^verbatim>\<open>displayName\<close> of the descriptor is \<^verbatim>\<open>Betaflight STM Electronics\<close>.
\<close>

theorem displayName_has_prefix:
  "vendorIdNames (example_modules willing_plugin) 1155 = Some ''STM Electronics'' \<and>
   fst (getDevices (example_modules willing_plugin) (initial_fields ())) =
     [Some \<lparr>path = ''serial'', displayName = ''Betaflight STM Electronics'',
             vendorId = 1155, productId = 22336\<rparr>] \<and>
   displayName \<lparr>path = ''serial'', displayName = ''Betaflight STM Electronics'',
                vendorId = 1155, productId = 22336\<rparr> \<noteq> ''STM Electronics''"
  by (simp add: example_discovery) (simp add: example_modules_def example_names_def)

section \<open>Adding a device twice\<close>

text \<open>
  \<^verbatim>\<open>handleNewDevice\<close> pushes and dispatches what \<^verbatim>\<open>createPort\<close> returned, also
  when that is the \<^verbatim>\<open>null\<close> of the branch commented \<^verbatim>\<open>Avoid duplicates\<close>.
\<close>

lemma handleNewDevice_duplicate:
  "some_match vid pid (ports s) = Inr True \<Longrightarrow>
   handleNewDevice M vid pid s =
     (Inr None, s\<lparr>ports := ports s @ [None], trace := trace s @ [Dispatch (AddedDevice None)]\<rparr>)"
  by (simp add: createPort_duplicate handleNewDevice_result)

text \<open>
  C3 on the code. The registry holds the device 1155/22336. A second
  \<^verbatim>\<open>handleNewDevice(1155, 22336)\<close> returns \<^verbatim>\<open>null\<close>, as C3 says, but it appends
  \<^verbatim>\<open>null\<close> to the registry and dispatches \<^verbatim>\<open>"addedDevice"\<close> with detail
  \<^verbatim>\<open>null\<close>, where C3 has no mutation and no notification. A later
  \<^verbatim>\<open>handleNewDevice\<close> for another device then throws on the \<^verbatim>\<open>null\<close> element.
\<close>

theorem handleNewDevice_duplicate_pushes_null:
  "ports (snd (getDevices (example_modules willing_plugin) (initial_fields ()))) =
     [Some \<lparr>path = ''serial'', displayName = ''Betaflight STM Electronics'',
             vendorId = 1155, productId = 22336\<rparr>] \<and>
   fst (handleNewDevice (example_modules willing_plugin) 1155 22336
          (snd (getDevices (example_modules willing_plugin) (initial_fields ())))) = Inr None \<and>
   ports (snd (handleNewDevice (example_modules willing_plugin) 1155 22336
          (snd (getDevices (example_modules willing_plugin) (initial_fields ()))))) =
     [Some \<lparr>path = ''serial'', displayName = ''Betaflight STM Electronics'',
             vendorId = 1155, productId = 22336\<rparr>, None] \<and>
   trace (snd (handleNewDevice (example_modules willing_plugin) 1155 22336
          (snd (getDevices (example_modules willing_plugin) (initial_fields ()))))) =
     [Call (RequestSerialPermissions 1155 22336 CDC_ACM_SERIAL_DRIVER),
      Dispatch (AddedDevice
        (Some \<lparr>path = ''serial'', displayName = ''Betaflight STM Electronics'',
               vendorId = 1155, productId = 22336\<rparr>)),
      Dispatch (AddedDevice None)] \<and>
   fst (handleNewDevice (example_modules willing_plugin) 10473 394
          (snd (handleNewDevice (example_modules willing_plugin) 1155 22336
             (snd (getDevices (example_modules willing_plugin) (initial_fields ())))))) =
     Inl (TypeError ''Cannot read properties of null (reading 'vendorId')'')"
  by (simp add: example_discovery handleNewDevice_def createPort_def dispatchEvent_def observe_def)

text \<open>
  What the code keeps of the registry's uniqueness: \<^verbatim>\<open>handleNewDevice\<close> never adds a
  second descriptor for a pair.
\<close>

lemma descriptor_pairs_simps:
  "descriptor_pairs [] = []"
  "descriptor_pairs (None # ps) = descriptor_pairs ps"
  "descriptor_pairs (Some p # ps) = (vendorId p, productId p) # descriptor_pairs ps"
  "descriptor_pairs (ps @ qs) = descriptor_pairs ps @ descriptor_pairs qs"
  by (simp_all add: descriptor_pairs_def)

lemma some_match_False_pairs:
  "some_match vid pid ps = Inr False \<Longrightarrow> (vid, pid) \<notin> set (descriptor_pairs ps)"
  by (induction vid pid ps rule: some_match.induct)
     (auto simp: descriptor_pairs_simps split: if_splits)

lemma handleNewDevice_pairs_distinct:
  assumes "distinct (descriptor_pairs (ports s))"
  shows "distinct (descriptor_pairs (ports (snd (handleNewDevice M vid pid s))))"
proof (cases "some_match vid pid (ports s)")
  case (Inl e)
  then have "createPort M vid pid s = Inl e"
    by (simp add: createPort_def)
  with assms show ?thesis
    by (simp add: handleNewDevice_throws)
next
  case (Inr found)
  show ?thesis
  proof (cases found)
    case True
    with Inr assms show ?thesis
      by (simp add: handleNewDevice_duplicate descriptor_pairs_simps)
  next
    case False
    with Inr have "(vid, pid) \<notin> set (descriptor_pairs (ports s))"
      by (simp add: some_match_False_pairs)
    with Inr False assms show ?thesis
      by (simp add: createPort_fresh handleNewDevice_result descriptor_pairs_simps)
  qed
qed

section \<open>A pass over a registry with a null element\<close>

text \<open>The registry after the device was found, added a second time and removed.\<close>

lemma null_registry_state:
  "null_registry =
     (initial_fields ())
       \<lparr>ports := [None],
        trace := [Call (RequestSerialPermissions 1155 22336 CDC_ACM_SERIAL_DRIVER),
                  Dispatch (AddedDevice
                    (Some \<lparr>path = ''serial'', displayName = ''Betaflight STM Electronics'',
                           vendorId = 1155, productId = 22336\<rparr>)),
                  Dispatch (AddedDevice None),
                  Dispatch (RemovedDevice
                    (Some \<lparr>path = ''serial'', displayName = ''Betaflight STM Electronics'',
                           vendorId = 1155, productId = 22336\<rparr>))]\<rparr>"
  by (simp add: null_registry_def example_discovery handleNewDevice_def createPort_def
        handleDeviceRemoval_def dispatchEvent_def observe_def)

text \<open>
  C6 on the code. The registry is \<^verbatim>\<open>[null]\<close> and the plugin grants every request.
  C6 has the pass stop at the first candidate, register it and return true. The code
  asks for the first candidate, is granted, and scans the registry; the scan throws on
  the \<^verbatim>\<open>null\<close> element inside the \<^verbatim>\<open>try\<close>, whose \<^verbatim>\<open>catch\<close> is commented
  \<^verbatim>\<open>Ignore errors during permission requests\<close>; so the pass goes on, asks for the second
  and the third candidate in the same way, registers nothing and returns false.
\<close>

theorem requestPermissionDevice_loses_grant:
  "ports null_registry = [None] \<and>
   fst (requestSerialPermissions (Serial (example_modules willing_plugin)) 1155 22336
          CDC_ACM_SERIAL_DRIVER (plugin null_registry)) = Inr True \<and>
   requestPermissionDevice (example_modules willing_plugin) null_registry =
     (False,
      null_registry
        \<lparr>trace := trace null_registry @
           [Call (RequestSerialPermissions 1155 22336 CDC_ACM_SERIAL_DRIVER),
            Call (RequestSerialPermissions 10473 394 CDC_ACM_SERIAL_DRIVER),
            Call (RequestSerialPermissions 11836 22336 CDC_ACM_SERIAL_DRIVER)]\<rparr>)"
  by (simp add: null_registry_state requestPermissionDevice_def example_modules_def
        willing_plugin_def scripted_plugin_def initial_fields_def observe_def)

section \<open>Sending\<close>

text \<open>
  What \<^verbatim>\<open>send\<close> returns and the state it leaves, by the settlement of the write, by
  the data and by what the callback does.
\<close>

lemma send_result:
  "send M given callback s =
     (let resolved = \<not> isl (fst (write' (Serial M) given (plugin s)));
          after = (\<lambda>arguments.
            s\<lparr>plugin := snd (write' (Serial M) given (plugin s)),
              trace := trace s @ Call (Write given) # map Callback arguments\<rparr>)
      in case callback of
           None \<Rightarrow> (Inr resolved, after [])
         | Some cb \<Rightarrow>
             (case (if resolved then given else None) of
                None \<Rightarrow>
                  (case cb 0 0 of
                     None \<Rightarrow> (Inr False, after [0])
                   | Some e \<Rightarrow> (Inl e, after [0]))
              | Some bytes \<Rightarrow>
                  (case cb 0 (length bytes) of
                     None \<Rightarrow> (Inr True, after [length bytes])
                   | Some e \<Rightarrow>
                       (case cb 1 0 of
                          None \<Rightarrow> (Inr False, after [length bytes, 0])
                        | Some e' \<Rightarrow> (Inl e', after [length bytes, 0])))))"
proof (cases "write' (Serial M) given (plugin s)")
  case (Pair written t)
  show ?thesis
  proof (cases written)
    case (Inl error)
    with Pair show ?thesis
      by (simp add: send_def send_catch_def observe_def Let_def split: option.split)
  next
    case (Inr u)
    with Pair show ?thesis
      by (simp add: send_def send_catch_def observe_def Let_def split: option.split)
  qed
qed

text \<open>
  C7, as the code has it. Take a \<^verbatim>\<open>send\<close> of a buffer, without a callback or with
  one whose call returns. When the write resolves, \<^verbatim>\<open>send\<close> returns true and the
  callback is called once, with the byte length of the data; when the write rejects, it
  returns false and the callback is called once with zero. In every case, whatever the
  data and also with a callback that throws, \<^verbatim>\<open>bytesSent\<close> of the object keeps its
  value.
\<close>

theorem send_reports_through_callback:
  "(fst (write' (Serial M) (Some bytes) (plugin s)) = Inr () \<and>
    (case callback of None \<Rightarrow> True | Some cb \<Rightarrow> cb 0 (length bytes) = None) \<longrightarrow>
      fst (send M (Some bytes) callback s) = Inr True \<and>
      trace (snd (send M (Some bytes) callback s)) =
        trace s @ Call (Write (Some bytes)) #
          (case callback of None \<Rightarrow> [] | Some cb \<Rightarrow> [Callback (length bytes)])) \<and>
   (\<forall>e. fst (write' (Serial M) (Some bytes) (plugin s)) = Inl e \<and>
        (case callback of None \<Rightarrow> True | Some cb \<Rightarrow> cb 0 0 = None) \<longrightarrow>
      fst (send M (Some bytes) callback s) = Inr False \<and>
      trace (snd (send M (Some bytes) callback s)) =
        trace s @ Call (Write (Some bytes)) #
          (case callback of None \<Rightarrow> [] | Some cb \<Rightarrow> [Callback 0])) \<and>
   bytesSent (snd (send M given callback s)) = bytesSent s"
  by (simp add: send_result Let_def split: sum.split option.split)

text \<open>Three bytes sent through a plugin that writes, and through one whose write rejects.\<close>

theorem send_reports_through_callback_witness:
  "fst (send (example_modules willing_plugin) (Some [1, 2, 3]) (Some quiet_callback)
          (initial_fields ())) = Inr True \<and>
   trace (snd (send (example_modules willing_plugin) (Some [1, 2, 3]) (Some quiet_callback)
                 (initial_fields ()))) =
     [Call (Write (Some [1, 2, 3])), Callback 3] \<and>
   fst (send (example_modules refusing_write) (Some [1, 2, 3]) (Some quiet_callback)
          (initial_fields ())) = Inr False \<and>
   trace (snd (send (example_modules refusing_write) (Some [1, 2, 3]) (Some quiet_callback)
                 (initial_fields ()))) =
     [Call (Write (Some [1, 2, 3])), Callback 0] \<and>
   bytesSent (snd (send (example_modules willing_plugin) (Some [1, 2, 3]) (Some quiet_callback)
                     (initial_fields ()))) = 0"
  using send_reports_through_callback
      [of "example_modules willing_plugin" "[1, 2, 3]" "initial_fields ()" "Some quiet_callback"
          "Some [1, 2, 3]"]
    send_reports_through_callback
      [of "example_modules refusing_write" "[1, 2, 3]" "initial_fields ()" "Some quiet_callback"
          "Some [1, 2, 3]"]
  by (simp add: example_modules_def willing_plugin_def refusing_write_def scripted_plugin_def
        initial_fields_def quiet_callback_def)

text \<open>
  That a resolved write alone makes \<^verbatim>\<open>send\<close> return true fails: the first call of
  the callback stands in the \<^verbatim>\<open>try\<close>. When the write resolves and that call throws,
  the \<^verbatim>\<open>catch\<close> calls the callback again, with zero, and \<^verbatim>\<open>send\<close> returns false.
  The same holds, with one call of the callback, when the data has no byte length to
  read.
\<close>

theorem send_returns_false_after_resolved_write:
  "fst (write' (Serial (example_modules willing_plugin)) (Some [1, 2, 3])
          (plugin (initial_fields ()))) = Inr () \<and>
   fst (send (example_modules willing_plugin) (Some [1, 2, 3]) (Some fussy_callback)
          (initial_fields ())) = Inr False \<and>
   trace (snd (send (example_modules willing_plugin) (Some [1, 2, 3]) (Some fussy_callback)
                 (initial_fields ()))) =
     [Call (Write (Some [1, 2, 3])), Callback 3, Callback 0] \<and>
   fst (write' (Serial (example_modules willing_plugin)) None (plugin (initial_fields ()))) =
     Inr () \<and>
   fst (send (example_modules willing_plugin) None (Some quiet_callback) (initial_fields ())) =
     Inr False \<and>
   trace (snd (send (example_modules willing_plugin) None (Some quiet_callback)
                 (initial_fields ()))) =
     [Call (Write None), Callback 0]"
  by (simp add: send_result Let_def example_modules_def willing_plugin_def scripted_plugin_def
        initial_fields_def fussy_callback_def quiet_callback_def)

text \<open>
  C10, as the code has it. \<^verbatim>\<open>send\<close> has no guard on the open state. Changing
  \<^verbatim>\<open>isOpen\<close> and \<^verbatim>\<open>connectionId\<close> of the state changes neither what \<^verbatim>\<open>send\<close>
  returns nor what it does; in every state the plugin's write is called with the data;
  and the result and the arguments the callback is called with are given by whether the
  write resolved, the byte length of the data (or its absence) and what the callback's
  own calls do. With no callback, or one whose call returns, the result is whether the
  write resolved and the argument is the byte length or zero by the same test.
\<close>

theorem send_has_no_open_guard:
  "send M given callback (s\<lparr>isOpen := b, connectionId := c\<rparr>) =
     (fst (send M given callback s), (snd (send M given callback s))\<lparr>isOpen := b, connectionId := c\<rparr>) \<and>
   plugin (snd (send M given callback s)) = snd (write' (Serial M) given (plugin s)) \<and>
   fst (send M given callback s) =
     (case callback of
        None \<Rightarrow> Inr (\<not> isl (fst (write' (Serial M) given (plugin s))))
      | Some cb \<Rightarrow>
          (case (if isl (fst (write' (Serial M) given (plugin s))) then None else given) of
             None \<Rightarrow> (case cb 0 0 of None \<Rightarrow> Inr False | Some e \<Rightarrow> Inl e)
           | Some bytes \<Rightarrow>
               (case cb 0 (length bytes) of
                  None \<Rightarrow> Inr True
                | Some e \<Rightarrow> (case cb 1 0 of None \<Rightarrow> Inr False | Some e' \<Rightarrow> Inl e')))) \<and>
   trace (snd (send M given callback s)) =
     trace s @ Call (Write given) #
       map Callback
         (case callback of
            None \<Rightarrow> []
          | Some cb \<Rightarrow>
              (case (if isl (fst (write' (Serial M) given (plugin s))) then None else given) of
                 None \<Rightarrow> [0]
               | Some bytes \<Rightarrow>
                   (case cb 0 (length bytes) of
                      None \<Rightarrow> [length bytes]
                    | Some e \<Rightarrow> [length bytes, 0])))"
  by (simp add: send_result Let_def split: option.split)

text \<open>
  That the result depends on the write and the byte length alone fails: the same three
  bytes through the same plugin, from the same state, give true with a callback that
  returns and false with one that throws at its first call.
\<close>

theorem send_result_depends_on_callback:
  "fst (send (example_modules willing_plugin) (Some [1, 2, 3]) (Some quiet_callback)
          (initial_fields ())) = Inr True \<and>
   fst (send (example_modules willing_plugin) (Some [1, 2, 3]) (Some fussy_callback)
          (initial_fields ())) = Inr False"
  by (simp add: send_result Let_def example_modules_def willing_plugin_def scripted_plugin_def
        initial_fields_def quiet_callback_def fussy_callback_def)

section \<open>Connecting\<close>

text \<open>\<^verbatim>\<open>connect\<close> by the settlements of the open and of the registration.\<close>

lemma connect_open_rejected:
  "openConnection (Serial M) (options_or_default opts) (plugin s) = (Inl e, t) \<Longrightarrow>
   connect M p opts s =
     (Inr False,
      s\<lparr>plugin := t,
        trace := trace s @ [Call (OpenConnection (options_or_default opts)), Dispatch (Connect False)]\<rparr>)"
  by (simp add: connect_def dispatchEvent_def observe_def)

lemma connect_open_resolved:
  "openConnection (Serial M) (options_or_default opts) (plugin s) = (Inr u, t) \<Longrightarrow>
   registerReadCallback (Serial M) t = (registered, t2) \<Longrightarrow>
   connect M p opts s =
     (case registered of
        Inl e \<Rightarrow>
          (Inl e,
           s\<lparr>isOpen := True, connectionId := Some p, receiveListener := True, plugin := t2,
             trace := trace s @ [Call (OpenConnection (options_or_default opts)),
                                 Call RegisterReadCallback]\<rparr>)
      | Inr u2 \<Rightarrow>
          (Inr True,
           s\<lparr>isOpen := True, connectionId := Some p, receiveListener := True, plugin := t2,
             trace := trace s @ [Call (OpenConnection (options_or_default opts)),
                                 Call RegisterReadCallback, Dispatch (Connect True)]\<rparr>))"
  by (simp add: connect_def dispatchEvent_def observe_def split: sum.split)

text \<open>The read callback on a message with data, once the listener is there.\<close>

lemma readCallback_chunk:
  "receiveListener s \<Longrightarrow>
   readCallback (Some (SerialMessage (Some chunk))) error s =
     s\<lparr>bytesReceived := bytesReceived s + length chunk,
       trace := trace s @ [Dispatch (Receive chunk)]\<rparr>"
  by (simp add: readCallback_def dispatchEvent_def observe_def handleReceiveBytes_def)

text \<open>
  C4, as the code has it. When \<^verbatim>\<open>openConnection\<close> rejects, \<^verbatim>\<open>connect\<close> returns
  false, dispatches \<^verbatim>\<open>"connect"\<close> with detail false and leaves \<^verbatim>\<open>isOpen\<close> and
  \<^verbatim>\<open>connectionId\<close> as they were (a closed object stays closed). When it resolves,
  \<^verbatim>\<open>isOpen\<close> is true, \<^verbatim>\<open>connectionId\<close> is the path and the listener is added:
  from then on a chunk the plugin hands to the read callback is dispatched as
  \<^verbatim>\<open>"receive"\<close> and \<^verbatim>\<open>bytesReceived\<close> grows by its length. When
  \<^verbatim>\<open>registerReadCallback\<close> resolves as well, \<^verbatim>\<open>connect\<close> dispatches
  \<^verbatim>\<open>"connect"\<close> with detail true and returns true.
\<close>

theorem connect_outcomes:
  "(let options = options_or_default opts;
        (opened, t1) = openConnection (Serial M) options (plugin s);
        (registered, t2) = registerReadCallback (Serial M) t1;
        (result, s') = connect M p opts s
    in (isl opened \<longrightarrow>
          result = Inr False \<and>
          trace s' = trace s @ [Call (OpenConnection options), Dispatch (Connect False)] \<and>
          isOpen s' = isOpen s \<and> connectionId s' = connectionId s) \<and>
       (\<not> isl opened \<longrightarrow>
          isOpen s' = True \<and> connectionId s' = Some p \<and> receiveListener s' = True \<and>
          (\<forall>chunk error.
             readCallback (Some (SerialMessage (Some chunk))) error s' =
               s'\<lparr>bytesReceived := bytesReceived s' + length chunk,
                  trace := trace s' @ [Dispatch (Receive chunk)]\<rparr>)) \<and>
       (\<not> isl opened \<and> \<not> isl registered \<longrightarrow>
          result = Inr True \<and>
          trace s' = trace s @ [Call (OpenConnection options), Call RegisterReadCallback,
                                Dispatch (Connect True)]))"
proof -
  obtain opened t1 where o: "openConnection (Serial M) (options_or_default opts) (plugin s) = (opened, t1)"
    by (cases "openConnection (Serial M) (options_or_default opts) (plugin s)")
  obtain registered t2 where r: "registerReadCallback (Serial M) t1 = (registered, t2)"
    by (cases "registerReadCallback (Serial M) t1")
  show ?thesis
  proof (cases opened)
    case (Inl e)
    with o r show ?thesis
      by (simp add: connect_open_rejected)
  next
    case (Inr u)
    with o r show ?thesis
      by (cases registered) (simp_all add: connect_open_resolved readCallback_chunk)
  qed
qed

text \<open>A plugin whose open rejects, and one that opens and registers.\<close>

theorem connect_outcomes_witness:
  "fst (connect (example_modules refusing_open) ''serial'' None (initial_fields ())) = Inr False \<and>
   trace (snd (connect (example_modules refusing_open) ''serial'' None (initial_fields ()))) =
     [Call (OpenConnection \<lparr>baudRate = 115200\<rparr>), Dispatch (Connect False)] \<and>
   isOpen (snd (connect (example_modules refusing_open) ''serial'' None (initial_fields ()))) = False \<and>
   connectionId (snd (connect (example_modules refusing_open) ''serial'' None (initial_fields ()))) = None \<and>
   fst (connect (example_modules willing_plugin) ''serial'' None (initial_fields ())) = Inr True \<and>
   trace (snd (connect (example_modules willing_plugin) ''serial'' None (initial_fields ()))) =
     [Call (OpenConnection \<lparr>baudRate = 115200\<rparr>), Call RegisterReadCallback, Dispatch (Connect True)] \<and>
   isOpen (snd (connect (example_modules willing_plugin) ''serial'' None (initial_fields ()))) = True \<and>
   connectionId (snd (connect (example_modules willing_plugin) ''serial'' None (initial_fields ()))) =
     Some ''serial'' \<and>
   bytesReceived (readCallback (Some (SerialMessage (Some [7, 8]))) None
     (snd (connect (example_modules willing_plugin) ''serial'' None (initial_fields ())))) = 2"
  using connect_outcomes [of None "example_modules refusing_open" "initial_fields ()" "''serial''"]
    connect_outcomes [of None "example_modules willing_plugin" "initial_fields ()" "''serial''"]
  by (simp add: Let_def case_prod_unfold options_or_default_def example_modules_def
        refusing_open_def willing_plugin_def scripted_plugin_def initial_fields_def
        connect_def observe_def dispatchEvent_def)

text \<open>
  That a resolved open alone makes \<^verbatim>\<open>connect\<close> return true fails: the \<^verbatim>\<open>await\<close> of \<^verbatim>\<open>registerReadCallback\<close> stands
  outside the \<^verbatim>\<open>try\<close>. When the open resolves and the registration rejects,
  \<^verbatim>\<open>connect\<close> throws: it neither returns true nor dispatches \<^verbatim>\<open>"connect"\<close>.
\<close>

theorem connect_throws_when_registration_rejects:
  "fst (openConnection (Serial (example_modules refusing_register)) (options_or_default None)
          (plugin (initial_fields ()))) = Inr () \<and>
   fst (connect (example_modules refusing_register) ''serial'' None (initial_fields ())) =
     Inl (NativeError ''no read callback'') \<and>
   trace (snd (connect (example_modules refusing_register) ''serial'' None (initial_fields ()))) =
     [Call (OpenConnection \<lparr>baudRate = 115200\<rparr>), Call RegisterReadCallback]"
  by (simp add: connect_def options_or_default_def example_modules_def refusing_register_def
        scripted_plugin_def initial_fields_def observe_def)


section \<open>Disconnecting\<close>

text \<open>The \<^verbatim>\<open>try\<close> and the \<^verbatim>\<open>finally\<close> of \<^verbatim>\<open>disconnect\<close>, by what the plugin answers.\<close>

lemma close_steps_result:
  "close_steps M s =
     (case unregisterReadCallback (Serial M) (plugin s) of
        (Inl e, t) \<Rightarrow> (Some e, s\<lparr>plugin := t, trace := trace s @ [Call UnregisterReadCallback]\<rparr>)
      | (Inr u, t) \<Rightarrow>
          (case closeConnection (Serial M) t of
             (Inl e, t2) \<Rightarrow>
               (Some e, s\<lparr>plugin := t2,
                           trace := trace s @ [Call UnregisterReadCallback, Call CloseConnection]\<rparr>)
           | (Inr u2, t2) \<Rightarrow>
               (None, s\<lparr>plugin := t2,
                         trace := trace s @ [Call UnregisterReadCallback, Call CloseConnection]\<rparr>)))"
  by (simp add: close_steps_def observe_def Let_def split: prod.split sum.split)

lemma cleanup_result:
  "cleanup s = s\<lparr>isOpen := False, port := None, trace := trace s @ [Dispatch (Disconnect True)]\<rparr>"
  by (simp add: cleanup_def dispatchEvent_def observe_def)

lemma disconnect_closed: "\<not> isOpen s \<Longrightarrow> disconnect M s = (Inr (), s)"
  by (simp add: disconnect_def)

lemma disconnect_open:
  "isOpen s \<Longrightarrow>
   disconnect M s =
     (case fst (close_steps M (s\<lparr>reading := False\<rparr>)) of
        Some cause \<Rightarrow> Inl (Error ''Failed to close serial port'' (Some cause))
      | None \<Rightarrow> Inr (),
      cleanup (snd (close_steps M (s\<lparr>reading := False\<rparr>))))"
  by (simp add: disconnect_def Let_def split: prod.split option.split)

text \<open>
  C1, as the code has it. A \<^verbatim>\<open>disconnect\<close> from a state with \<^verbatim>\<open>isOpen\<close> set
  calls \<^verbatim>\<open>unregisterReadCallback\<close> and, when that resolved, \<^verbatim>\<open>closeConnection\<close>.
  Whatever the two calls answer, the state it leaves has \<^verbatim>\<open>isOpen\<close> false and
  \<^verbatim>\<open>port\<close> null, and the last action is the \<^verbatim>\<open>"disconnect"\<close> event with detail
  true, dispatched on a state whose \<^verbatim>\<open>isOpen\<close> is false already. The call returns
  when both resolved; when one rejected with \<open>e\<close> it throws, together with that state,
  the error \<^verbatim>\<open>Failed to close serial port\<close> whose cause is \<open>e\<close>. Nothing is said
  of \<^verbatim>\<open>connectionId\<close>.
\<close>

theorem disconnect_always_cleans_up:
  assumes "isOpen s"
  shows
  "(let (unregistered, t1) = unregisterReadCallback (Serial M) (plugin s);
        (closed, t2) = closeConnection (Serial M) t1;
        (result, s') = disconnect M s
    in isOpen s' = False \<and> port s' = None \<and>
       (\<exists>before. isOpen before = False \<and> s' = dispatchEvent (Disconnect True) before) \<and>
       (case unregistered of
          Inl e \<Rightarrow>
            trace s' = trace s @ [Call UnregisterReadCallback, Dispatch (Disconnect True)] \<and>
            result = Inl (Error ''Failed to close serial port'' (Some e))
        | Inr u \<Rightarrow>
            trace s' = trace s @ [Call UnregisterReadCallback, Call CloseConnection,
                                  Dispatch (Disconnect True)] \<and>
            (case closed of
               Inl e \<Rightarrow> result = Inl (Error ''Failed to close serial port'' (Some e))
             | Inr u2 \<Rightarrow> result = Inr ())))"
proof -
  obtain unregistered t1 where u: "unregisterReadCallback (Serial M) (plugin s) = (unregistered, t1)"
    by (cases "unregisterReadCallback (Serial M) (plugin s)")
  obtain closed t2 where c: "closeConnection (Serial M) t1 = (closed, t2)"
    by (cases "closeConnection (Serial M) t1")
  obtain closeError s1 where k: "close_steps M (s\<lparr>reading := False\<rparr>) = (closeError, s1)"
    by (cases "close_steps M (s\<lparr>reading := False\<rparr>)")
  have d: "disconnect M s =
      (case closeError of Some cause \<Rightarrow> Inl (Error ''Failed to close serial port'' (Some cause))
       | None \<Rightarrow> Inr (), cleanup s1)"
    using assms k by (simp add: disconnect_open)
  have staged: "\<exists>before. isOpen before = False \<and> cleanup s1 = dispatchEvent (Disconnect True) before"
    unfolding cleanup_def by (rule exI [of _ "s1\<lparr>isOpen := False, port := None\<rparr>"]) simp
  show ?thesis
  proof (cases unregistered)
    case (Inl e)
    with u k have "closeError = Some e"
      and "trace s1 = trace s @ [Call UnregisterReadCallback]"
      by (auto simp: close_steps_result)
    with u c d staged Inl show ?thesis
      by (simp add: cleanup_result)
  next
    case (Inr v)
    with u c k have "closeError = (case closed of Inl e \<Rightarrow> Some e | Inr u2 \<Rightarrow> None)"
      and "trace s1 = trace s @ [Call UnregisterReadCallback, Call CloseConnection]"
      by (auto simp: close_steps_result split: sum.splits)
    with u c d staged Inr show ?thesis
      by (simp add: cleanup_result split: sum.split)
  qed
qed

text \<open>A first \<^verbatim>\<open>connect("serial")\<close> on a plugin that opens and registers.\<close>

lemma example_connect:
  "connect (example_modules (scripted_plugin perm (Inr ()) (Inr ()) u c w)) ''serial'' None (initial_fields ()) =
     (Inr True, (initial_fields ())\<lparr>isOpen := True, connectionId := Some ''serial'', receiveListener := True,
        trace := [Call (OpenConnection \<lparr>baudRate = 115200\<rparr>), Call RegisterReadCallback, Dispatch (Connect True)]\<rparr>)"
  by (simp add: connect_def options_or_default_def example_modules_def scripted_plugin_def
        initial_fields_def observe_def dispatchEvent_def)

text \<open>An open connection whose \<^verbatim>\<open>closeConnection\<close> rejects.\<close>

theorem disconnect_always_cleans_up_witness:
  "isOpen (snd (connect (example_modules refusing_close) ''serial'' None (initial_fields ()))) \<and>
   isOpen (snd (disconnect (example_modules refusing_close)
     (snd (connect (example_modules refusing_close) ''serial'' None (initial_fields ()))))) = False \<and>
   fst (disconnect (example_modules refusing_close)
     (snd (connect (example_modules refusing_close) ''serial'' None (initial_fields ())))) =
     Inl (Error ''Failed to close serial port'' (Some (NativeError ''close failed'')))"
  using disconnect_always_cleans_up [of "snd (connect (example_modules refusing_close) ''serial'' None (initial_fields ()))"
     "example_modules refusing_close"]
  by (simp add: refusing_close_def example_connect case_prod_unfold Let_def)
     (simp add: example_modules_def scripted_plugin_def)

text \<open>
  That \<^verbatim>\<open>disconnect\<close> clears \<^verbatim>\<open>connectionId\<close> fails: it assigns \<^verbatim>\<open>isOpen\<close> and \<^verbatim>\<open>port\<close>,
  and \<^verbatim>\<open>connectionId\<close> keeps the path of the last \<^verbatim>\<open>connect\<close>.
\<close>

theorem disconnect_keeps_connectionId:
  "isOpen (snd (connect (example_modules willing_plugin) ''serial'' None (initial_fields ()))) \<and>
   fst (disconnect (example_modules willing_plugin)
     (snd (connect (example_modules willing_plugin) ''serial'' None (initial_fields ())))) = Inr () \<and>
   connectionId (snd (disconnect (example_modules willing_plugin)
     (snd (connect (example_modules willing_plugin) ''serial'' None (initial_fields ()))))) = Some ''serial''"
  by (simp add: willing_plugin_def example_connect disconnect_open close_steps_result cleanup_result)
     (simp add: example_modules_def scripted_plugin_def)


section \<open>The connection state over the life of an object\<close>

text \<open>What each method does to \<^verbatim>\<open>isOpen\<close> and \<^verbatim>\<open>connectionId\<close>.\<close>

lemma handleNewDevice_connection:
  "isOpen (snd (handleNewDevice M vid pid s)) = isOpen s \<and>
   connectionId (snd (handleNewDevice M vid pid s)) = connectionId s"
  by (cases "createPort M vid pid s") (simp_all add: handleNewDevice_throws handleNewDevice_result)

lemma handleDeviceRemoval_connection:
  "isOpen (snd (handleDeviceRemoval vid pid s)) = isOpen s \<and>
   connectionId (snd (handleDeviceRemoval vid pid s)) = connectionId s"
  by (simp add: handleDeviceRemoval_def dispatchEvent_def observe_def Let_def
        split: sum.split option.split)

lemma loadDevices_connection:
  "isOpen (snd (loadDevices M s)) = isOpen s \<and>
   connectionId (snd (loadDevices M s)) = connectionId s"
  by (simp add: loadDevices_def requestPermissionDevice_def split_beta permission_loop_connection)

lemma readCallback_connection:
  "isOpen (readCallback message error s) = isOpen s \<and>
   connectionId (readCallback message error s) = connectionId s"
  by (simp add: readCallback_def dispatchEvent_def observe_def handleReceiveBytes_def Let_def
        split: option.split serial_message.split)

lemma send_connection:
  "isOpen (snd (send M given callback s)) = isOpen s \<and>
   connectionId (snd (send M given callback s)) = connectionId s"
  by (simp add: send_result Let_def split: option.split)

lemma connect_connection:
  "(isOpen (snd (connect M p opts s)) = isOpen s \<and>
    connectionId (snd (connect M p opts s)) = connectionId s) \<or>
   (isOpen (snd (connect M p opts s)) = True \<and>
    connectionId (snd (connect M p opts s)) = Some p)"
proof -
  obtain opened t where o: "openConnection (Serial M) (options_or_default opts) (plugin s) = (opened, t)"
    by (cases "openConnection (Serial M) (options_or_default opts) (plugin s)")
  obtain registered t2 where r: "registerReadCallback (Serial M) t = (registered, t2)"
    by (cases "registerReadCallback (Serial M) t")
  show ?thesis
  proof (cases opened)
    case (Inl e)
    with o show ?thesis by (simp add: connect_open_rejected)
  next
    case (Inr u)
    with o r show ?thesis by (simp add: connect_open_resolved split: sum.split)
  qed
qed

lemma connect_returns_true:
  "fst (connect M p opts s) = Inr True \<Longrightarrow>
   isOpen (snd (connect M p opts s)) = True \<and> connectionId (snd (connect M p opts s)) = Some p"
proof -
  assume ok: "fst (connect M p opts s) = Inr True"
  obtain opened t where o: "openConnection (Serial M) (options_or_default opts) (plugin s) = (opened, t)"
    by (cases "openConnection (Serial M) (options_or_default opts) (plugin s)")
  obtain registered t2 where r: "registerReadCallback (Serial M) t = (registered, t2)"
    by (cases "registerReadCallback (Serial M) t")
  show ?thesis
  proof (cases opened)
    case (Inl e)
    with o ok show ?thesis by (simp add: connect_open_rejected)
  next
    case (Inr u)
    with o r show ?thesis by (simp add: connect_open_resolved split: sum.split)
  qed
qed

lemma disconnect_not_open: "isOpen (snd (disconnect M s)) = False"
proof (cases "isOpen s")
  case True
  then show ?thesis by (simp add: disconnect_open cleanup_result)
next
  case False
  then show ?thesis by (simp add: disconnect_closed)
qed

text \<open>Only \<^verbatim>\<open>connect\<close> and \<^verbatim>\<open>disconnect\<close> assign the two fields.\<close>

lemma step_connection:
  "(\<forall>p opts. op \<noteq> ConnectTo p opts) \<Longrightarrow> op \<noteq> DisconnectNow \<Longrightarrow>
   isOpen (step M op s) = isOpen s \<and> connectionId (step M op s) = connectionId s"
  by (cases op)
     (simp_all add: handleReceiveBytes_def handleNewDevice_connection handleDeviceRemoval_connection
        loadDevices_connection readCallback_connection send_connection getDevices_def split_beta
        requestPermissionDevice_def permission_loop_connection)

text \<open>An open object has a \<^verbatim>\<open>connectionId\<close>: kept by every operation, so by every run.\<close>

lemma step_open_has_id:
  assumes "isOpen s \<longrightarrow> connectionId s \<noteq> None"
  shows "isOpen (step M op s) \<longrightarrow> connectionId (step M op s) \<noteq> None"
proof (cases "(\<exists>p opts. op = ConnectTo p opts) \<or> op = DisconnectNow")
  case False
  then have "isOpen (step M op s) = isOpen s \<and> connectionId (step M op s) = connectionId s"
    by (intro step_connection) auto
  with assms show ?thesis by simp
next
  case True
  then show ?thesis
  proof
    assume "\<exists>p opts. op = ConnectTo p opts"
    then obtain p opts where "op = ConnectTo p opts" by blast
    with assms connect_connection [of M p opts s] show ?thesis by auto
  next
    assume "op = DisconnectNow"
    then show ?thesis by (simp add: disconnect_not_open)
  qed
qed

lemma run_open_has_id:
  "isOpen s \<longrightarrow> connectionId s \<noteq> None \<Longrightarrow>
   isOpen (run M ops s) \<longrightarrow> connectionId (run M ops s) \<noteq> None"
proof (induction ops arbitrary: s)
  case Nil
  then show ?case by simp
next
  case (Cons op ops)
  from Cons.prems have "isOpen (step M op s) \<longrightarrow> connectionId (step M op s) \<noteq> None"
    by (rule step_open_has_id)
  then show ?case by (simp add: Cons.IH)
qed

lemma constructor_closed:
  "isOpen (constructor M t) = False \<and> connectionId (constructor M t) = None"
  by (simp add: constructor_def loadDevices_connection) (simp add: initial_fields_def)

text \<open>
  C2, as the code has it. A new object is closed and has no \<^verbatim>\<open>connectionId\<close>. After
  any sequence of operations on it, \<^verbatim>\<open>isOpen\<close> implies that \<^verbatim>\<open>connectionId\<close> is
  set. A \<^verbatim>\<open>connect\<close> that returns true leaves \<^verbatim>\<open>isOpen\<close> true and
  \<^verbatim>\<open>connectionId\<close> equal to the path. After \<^verbatim>\<open>disconnect\<close>, from any state and
  whatever the plugin answers, \<^verbatim>\<open>isOpen\<close> is false. Nothing is said of
  \<^verbatim>\<open>connectionId\<close> after \<^verbatim>\<open>disconnect\<close>.
\<close>

theorem open_implies_connectionId:
  "isOpen (constructor M t) = False \<and> connectionId (constructor M t) = None \<and>
   (isOpen (run M ops (constructor M t)) \<longrightarrow> connectionId (run M ops (constructor M t)) \<noteq> None) \<and>
   (fst (connect M p opts s) = Inr True \<longrightarrow>
      isOpen (snd (connect M p opts s)) = True \<and> connectionId (snd (connect M p opts s)) = Some p) \<and>
   isOpen (snd (disconnect M s)) = False"
proof -
  have "isOpen (constructor M t) \<longrightarrow> connectionId (constructor M t) \<noteq> None"
    by (simp add: constructor_closed)
  then have "isOpen (run M ops (constructor M t)) \<longrightarrow> connectionId (run M ops (constructor M t)) \<noteq> None"
    by (rule run_open_has_id)
  then show ?thesis
    using connect_returns_true [of M p opts s]
    by (simp add: constructor_closed disconnect_not_open)
qed

text \<open>The constructor with a plugin that grants the first candidate.\<close>

lemma example_constructor:
  "constructor (example_modules (scripted_plugin (\<lambda>vid pid. Inr True) a b c d e)) () =
     (initial_fields ())
        \<lparr>ports := [Some \<lparr>path = ''serial'', displayName = ''Betaflight STM Electronics'',
                           vendorId = 1155, productId = 22336\<rparr>],
         trace := [Call (RequestSerialPermissions 1155 22336 CDC_ACM_SERIAL_DRIVER),
                   Dispatch (AddedDevice
                     (Some \<lparr>path = ''serial'', displayName = ''Betaflight STM Electronics'',
                            vendorId = 1155, productId = 22336\<rparr>))]\<rparr>"
  by (simp add: constructor_def loadDevices_def requestPermissionDevice_def example_modules_def
       scripted_plugin_def initial_fields_def observe_def handleNewDevice_def
       createPort_def dispatchEvent_def example_vendor)

text \<open>A new object, connected to \<^verbatim>\<open>serial\<close>, then sending two bytes.\<close>

theorem open_implies_connectionId_witness:
  "isOpen (run (example_modules willing_plugin) [ConnectTo ''serial'' None, Send (Some [1, 2]) None]
            (constructor (example_modules willing_plugin) ())) \<and>
   connectionId (run (example_modules willing_plugin) [ConnectTo ''serial'' None, Send (Some [1, 2]) None]
            (constructor (example_modules willing_plugin) ())) \<noteq> None \<and>
   fst (connect (example_modules willing_plugin) ''serial'' None
          (constructor (example_modules willing_plugin) ())) = Inr True \<and>
   connectionId (snd (connect (example_modules willing_plugin) ''serial'' None
          (constructor (example_modules willing_plugin) ()))) = Some ''serial''"
proof -
  have opened: "isOpen (run (example_modules willing_plugin) [ConnectTo ''serial'' None, Send (Some [1, 2]) None]
            (constructor (example_modules willing_plugin) ()))"
    by (simp add: willing_plugin_def example_constructor)
       (simp add: connect_def send_def send_catch_def options_or_default_def example_modules_def
          scripted_plugin_def initial_fields_def observe_def dispatchEvent_def)
  have returned: "fst (connect (example_modules willing_plugin) ''serial'' None
          (constructor (example_modules willing_plugin) ())) = Inr True"
    by (simp add: willing_plugin_def example_constructor)
       (simp add: connect_def options_or_default_def example_modules_def scripted_plugin_def
          initial_fields_def observe_def dispatchEvent_def)
  from opened returned
    open_implies_connectionId [of "example_modules willing_plugin" "()"
      "[ConnectTo ''serial'' None, Send (Some [1, 2]) None]" "''serial''" None
      "constructor (example_modules willing_plugin) ()"]
  show ?thesis by simp
qed

text \<open>
  The other direction, that a set \<^verbatim>\<open>connectionId\<close> implies \<^verbatim>\<open>isOpen\<close>, fails: after \<^verbatim>\<open>connect\<close> and then
  \<^verbatim>\<open>disconnect\<close> (here with a close that rejects) \<^verbatim>\<open>isOpen\<close> is false while
  \<^verbatim>\<open>connectionId\<close> is still the path.
\<close>

theorem connectionId_set_while_closed:
  "isOpen (run (example_modules refusing_close) [ConnectTo ''serial'' None, DisconnectNow]
            (constructor (example_modules refusing_close) ())) = False \<and>
   connectionId (run (example_modules refusing_close) [ConnectTo ''serial'' None, DisconnectNow]
            (constructor (example_modules refusing_close) ())) = Some ''serial''"
  by (simp add: refusing_close_def example_constructor)
     (simp add: connect_def disconnect_def close_steps_def cleanup_def options_or_default_def
        example_modules_def scripted_plugin_def initial_fields_def observe_def dispatchEvent_def)


section \<open>The registry over the life of an object\<close>

text \<open>The methods of the connection leave the registry alone.\<close>

lemma connect_ports: "ports (snd (connect M p opts s)) = ports s"
proof -
  obtain opened t where o: "openConnection (Serial M) (options_or_default opts) (plugin s) = (opened, t)"
    by (cases "openConnection (Serial M) (options_or_default opts) (plugin s)")
  obtain registered t2 where r: "registerReadCallback (Serial M) t = (registered, t2)"
    by (cases "registerReadCallback (Serial M) t")
  show ?thesis
  proof (cases opened)
    case (Inl e)
    with o show ?thesis by (simp add: connect_open_rejected)
  next
    case (Inr u)
    with o r show ?thesis by (simp add: connect_open_resolved split: sum.split)
  qed
qed

lemma disconnect_ports: "ports (snd (disconnect M s)) = ports s"
proof (cases "isOpen s")
  case True
  then show ?thesis
    by (simp add: disconnect_open cleanup_result close_steps_result split: prod.split sum.split)
next
  case False
  then show ?thesis by (simp add: disconnect_closed)
qed

lemma findIndex_match_bound:
  "findIndex_match vid pid ps = Inr (Some i) \<Longrightarrow> i < length ps"
  by (induction vid pid ps arbitrary: i rule: findIndex_match.induct)
     (auto split: if_splits sum.splits option.splits)

lemma handleDeviceRemoval_descriptors:
  "list_all (\<lambda>q. q \<noteq> None) (ports s) \<Longrightarrow>
   list_all (\<lambda>q. q \<noteq> None) (ports (snd (handleDeviceRemoval vid pid s)))"
  by (auto simp: handleDeviceRemoval_def dispatchEvent_def observe_def Let_def list_all_iff
        split: sum.split option.split dest: in_set_takeD in_set_dropD)

lemma permission_loop_descriptors:
  "list_all (\<lambda>q. q \<noteq> None) (ports s) \<Longrightarrow>
   list_all (\<lambda>q. q \<noteq> None) (ports (snd (permission_loop M cs s)))"
  using permission_loop_ports [of M cs s] by auto

text \<open>
  A \<^verbatim>\<open>null\<close> element comes from a direct \<^verbatim>\<open>handleNewDevice\<close> alone: every other
  operation keeps a registry of descriptors.
\<close>

lemma step_descriptors:
  assumes d: "list_all (\<lambda>q. q \<noteq> None) (ports s)" and "\<forall>vid pid. op \<noteq> HandleNewDevice vid pid"
  shows "list_all (\<lambda>q. q \<noteq> None) (ports (step M op s))"
proof (cases op)
  case (HandleNewDevice vid pid)
  with assms show ?thesis by simp
next
  case (HandleDeviceRemoval vid pid)
  with d show ?thesis by (simp only: step.simps handleDeviceRemoval_descriptors)
next
  case LoadDevices
  have "ports (snd (loadDevices M s)) = ports s \<or>
      snd (loadDevices M s) = snd (permission_loop M (serialDevices M) s)"
    by (simp add: loadDevices_def requestPermissionDevice_def split_beta)
  with d permission_loop_descriptors [OF d, of M "serialDevices M"] LoadDevices show ?thesis
    by (auto simp only: step.simps)
next
  case GetDevices
  have "ports (snd (getDevices M s)) = ports s \<or>
      snd (getDevices M s) = snd (permission_loop M (serialDevices M) s)"
    by (simp add: getDevices_def loadDevices_def requestPermissionDevice_def split_beta)
  with d permission_loop_descriptors [OF d, of M "serialDevices M"] GetDevices show ?thesis
    by (auto simp only: step.simps)
next
  case RequestPermissionDevice
  with permission_loop_descriptors [OF d, of M "serialDevices M"] show ?thesis
    by (simp only: step.simps requestPermissionDevice_def)
next
  case (ConnectTo p opts)
  with d show ?thesis by (simp only: step.simps connect_ports)
next
  case DisconnectNow
  with d show ?thesis by (simp only: step.simps disconnect_ports)
next
  case (Send given callback)
  have "ports (snd (send M given callback s)) = ports s"
    by (simp add: send_result Let_def split: option.split)
  with d Send show ?thesis by (simp only: step.simps)
next
  case (ReadCallback message error)
  have "ports (readCallback message error s) = ports s"
    by (simp add: readCallback_def dispatchEvent_def observe_def handleReceiveBytes_def Let_def
          split: option.split serial_message.split)
  with d ReadCallback show ?thesis by (simp only: step.simps)
next
  case (HandleReceiveBytes detail)
  with d show ?thesis by (simp add: handleReceiveBytes_def)
next
  case GetConnectedPort
  with d show ?thesis by simp
qed


end
